theory Spec2Isabelle
  imports Main "HOL-Library.AList"
begin

section \<open>Values\<close>

text \<open>
  Modelled from the spec: the type \<open>FlagValue\<close> is declared in \<open>core/defs\<close>, which is
  not among the sources. The spec gives it as boolean | string | null. \<open>Undefined\<close> is
  JavaScript's \<open>undefined\<close>: the value of an omitted argument, of an absent property and
  of a storage lookup that finds nothing. Strings are sequences of 8-bit code units.
\<close>

datatype jsval = Undefined | Null | Bool bool | Str string

text \<open>The coercion \<open>!!v\<close>.\<close>

fun truthy :: "jsval \<Rightarrow> bool" where
  "truthy Undefined = False"
| "truthy Null = False"
| "truthy (Bool b) = b"
| "truthy (Str s) = (s \<noteq> [])"

text \<open>
  \<open>JSON.stringify\<close> on these values. It yields \<open>undefined\<close> (here \<open>None\<close>) for
  \<open>undefined\<close> and a string otherwise; a string value is quoted, with the quotation mark,
  the backslash and the control characters escaped.
\<close>

definition hex_digit :: "nat \<Rightarrow> char" where
  "hex_digit n = ''0123456789abcdef'' ! (n mod 16)"

definition json_escape :: "char \<Rightarrow> string" where
  "json_escape c =
     (if c = CHR 0x22 then [CHR 0x5C, CHR 0x22]
      else if c = CHR 0x5C then [CHR 0x5C, CHR 0x5C]
      else if c = CHR 0x08 then [CHR 0x5C, CHR ''b'']
      else if c = CHR 0x0C then [CHR 0x5C, CHR ''f'']
      else if c = CHR 0x0A then [CHR 0x5C, CHR ''n'']
      else if c = CHR 0x0D then [CHR 0x5C, CHR ''r'']
      else if c = CHR 0x09 then [CHR 0x5C, CHR ''t'']
      else if (of_char c :: nat) < 32 then
        [CHR 0x5C, CHR ''u'', CHR ''0'', CHR ''0'',
         hex_digit (of_char c div 16), hex_digit (of_char c mod 16)]
      else [c])"

definition json_quote :: "string \<Rightarrow> string" where
  "json_quote s = CHR 0x22 # concat (map json_escape s) @ [CHR 0x22]"

fun JSON_stringify :: "jsval \<Rightarrow> string option" where
  "JSON_stringify Undefined = None"
| "JSON_stringify Null = Some ''null''"
| "JSON_stringify (Bool b) = Some (if b then ''true'' else ''false'')"
| "JSON_stringify (Str s) = Some (json_quote s)"

section \<open>Storage backends\<close>

text \<open>
  Modelled from the spec: the storage interfaces \<open>FlaggStorage\<close> (name, get, set, remove)
  and \<open>FlaggReadOnlyStorage\<close> (name, get, all) are declared in \<open>core/defs\<close> and implemented
  outside the core. A backend is modelled as a named key-value table together with the
  methods it has: the core probes \<open>'set' in storage\<close> and \<open>'remove' in storage\<close> and calls
  \<open>all\<close> on a hydration source. \<open>get\<close> of a key without an entry is \<open>undefined\<close>.
\<close>

record Storage =
  name :: string
  has_set :: bool
  has_remove :: bool
  has_all :: bool
  items :: "(string \<times> jsval) list"

definition storage_get :: "Storage \<Rightarrow> string \<Rightarrow> jsval" where
  "storage_get s k = (case map_of (items s) k of None \<Rightarrow> Undefined | Some v \<Rightarrow> v)"

definition storage_set :: "Storage \<Rightarrow> string \<Rightarrow> jsval \<Rightarrow> Storage" where
  "storage_set s k v = s\<lparr>items := AList.update k v (items s)\<rparr>"

definition storage_remove :: "Storage \<Rightarrow> string \<Rightarrow> Storage" where
  "storage_remove s k = s\<lparr>items := AList.delete k (items s)\<rparr>"

definition storage_all :: "Storage \<Rightarrow> (string \<times> jsval) list" where
  "storage_all s = items s"

text \<open>What the core can see of a storage object without calling it: its name and which
  methods it has. No method changes them.\<close>

definition interface :: "Storage \<Rightarrow> string \<times> bool \<times> bool \<times> bool" where
  "interface s = (name s, has_set s, has_remove s, has_all s)"

section \<open>The world: objects, warnings, backend calls\<close>

text \<open>
  Storage objects live in a store and are referred to by address, so that the alias
  \<open>_default\<close> and a storage's own name reach the same object. The world also keeps what
  \<open>console.warn\<close> printed and the backend methods invoked, both in order.
\<close>

type_synonym ref = nat

datatype call =
  CallGet ref string
| CallSet ref string jsval
| CallRemove ref string
| CallAll ref

record world =
  heap :: "ref \<Rightarrow> Storage"
  warnings :: "string list"
  calls :: "call list"

datatype error = TypeError

text \<open>A computation runs in a world and returns a value or throws; either way the world
  it leaves behind stays.\<close>

type_synonym 'a js = "world \<Rightarrow> (error + 'a) \<times> world"

definition returnJ :: "'a \<Rightarrow> 'a js" where
  "returnJ x = (\<lambda>w. (Inr x, w))"

definition throwJ :: "error \<Rightarrow> 'a js" where
  "throwJ e = (\<lambda>w. (Inl e, w))"

definition bindJ :: "'a js \<Rightarrow> ('a \<Rightarrow> 'b js) \<Rightarrow> 'b js" where
  "bindJ m f = (\<lambda>w. case m w of (Inl e, w') \<Rightarrow> (Inl e, w') | (Inr x, w') \<Rightarrow> f x w')"

text \<open>A function that only computes: it returns or throws and leaves the world alone.\<close>

definition liftJ :: "error + 'a \<Rightarrow> 'a js" where
  "liftJ x = (\<lambda>w. (x, w))"

definition console_warn :: "string \<Rightarrow> unit js" where
  "console_warn msg = (\<lambda>w. (Inr (), w\<lparr>warnings := warnings w @ [msg]\<rparr>))"

text \<open>Method calls on a storage object, \<open>storage.get(k)\<close> and so on.\<close>

definition call_get :: "ref \<Rightarrow> string \<Rightarrow> jsval js" where
  "call_get r k = (\<lambda>w. (Inr (storage_get (heap w r) k), w\<lparr>calls := calls w @ [CallGet r k]\<rparr>))"

definition call_set :: "ref \<Rightarrow> string \<Rightarrow> jsval \<Rightarrow> unit js" where
  "call_set r k v = (\<lambda>w. (Inr (),
     w\<lparr>heap := (heap w)(r := storage_set (heap w r) k v), calls := calls w @ [CallSet r k v]\<rparr>))"

definition call_remove :: "ref \<Rightarrow> string \<Rightarrow> unit js" where
  "call_remove r k = (\<lambda>w. (Inr (),
     w\<lparr>heap := (heap w)(r := storage_remove (heap w r) k), calls := calls w @ [CallRemove r k]\<rparr>))"

definition call_all :: "ref \<Rightarrow> ((string \<times> jsval) list) js" where
  "call_all r = (\<lambda>w. (Inr (storage_all (heap w r)), w\<lparr>calls := calls w @ [CallAll r]\<rparr>))"

section \<open>The core: \<open>src/core/index.ts\<close>\<close>

text \<open>
  Modelled from the spec: \<open>FlagDefinition\<close>, \<open>FlagDefinitions\<close>, \<open>FlaggStorageInput\<close> and
  \<open>FlaggOpts\<close> are declared in \<open>core/defs\<close>. A definition has an optional default
  (\<open>Undefined\<close> when absent), an optional list of options and an optional storage name.
  The registry is a plain object keyed by flag name, given by its own properties;
  \<open>None\<close> says that the registry has no own property of that name.
\<close>

record FlagDefinition =
  default_value :: jsval
  options :: "string list option"
  storage :: "string option"

type_synonym FlagDefinitions = "string \<Rightarrow> FlagDefinition option"

text \<open>
  The registry and the storage map are plain objects, so indexing them also finds what
  they inherit from \<open>Object.prototype\<close>: its methods, which are functions, and the
  accessor \<open>__proto__\<close>, which yields the prototype of the object that is indexed. These
  are the member names of \<open>Object.prototype\<close> in ECMAScript, Annex B included.
\<close>

definition Object_prototype_names :: "string list" where
  "Object_prototype_names =
     [''constructor'', ''hasOwnProperty'', ''isPrototypeOf'', ''propertyIsEnumerable'',
      ''toLocaleString'', ''toString'', ''valueOf'', ''__proto__'',
      ''__defineGetter__'', ''__defineSetter__'', ''__lookupGetter__'', ''__lookupSetter__'']"

text \<open>
  What indexing the storage map can yield: \<open>undefined\<close>, a storage object, a function
  (with its \<open>name\<close>), the object \<open>Object.prototype\<close>, or a string. The last two arise
  from inherited members only.
\<close>

datatype member =
  NoMember
| StorageObject ref
| FunctionObject string
| PrototypeObject
| StringValue string

fun truthy_member :: "member \<Rightarrow> bool" where
  "truthy_member NoMember = False"
| "truthy_member (StringValue s) = (s \<noteq> [])"
| "truthy_member m = True"

text \<open>
  A storage map has own properties, bound to storage objects (\<open>None\<close>: no own property,
  or the own property \<open>_default\<close> bound to \<open>undefined\<close>), and a prototype: \<open>None\<close> is
  \<open>Object.prototype\<close>, and \<open>Some r\<close> the storage object \<open>r\<close>, which the assignment
  \<open>acc['__proto__'] = storage\<close> puts there.
\<close>

record StorageMap =
  own :: "string \<Rightarrow> ref option"
  proto :: "ref option"

text \<open>The \<open>name\<close> of the function \<open>Object.prototype.constructor\<close>, which is \<open>Object\<close>, is
  \<open>Object\<close>; the other methods are named like their property.\<close>

definition lookup_Object_prototype :: "string \<Rightarrow> member" where
  "lookup_Object_prototype k =
     (if k \<in> set Object_prototype_names
      then FunctionObject (if k = ''constructor'' then ''Object'' else k)
      else NoMember)"

text \<open>
  Modelled from the spec: a storage object has the members of its interface (\<open>name\<close>,
  \<open>get\<close>, and \<open>set\<close>, \<open>remove\<close>, \<open>all\<close> when it has them), as writable properties, its
  methods are functions named like their property, and it inherits from
  \<open>Object.prototype\<close>.
\<close>

definition lookup_storage_object :: "Storage \<Rightarrow> string \<Rightarrow> member" where
  "lookup_storage_object s k =
     (if k = ''name'' then StringValue (name s)
      else if k = ''get'' \<or> (k = ''set'' \<and> has_set s) \<or> (k = ''remove'' \<and> has_remove s)
                \<or> (k = ''all'' \<and> has_all s)
      then FunctionObject k
      else lookup_Object_prototype k)"

text \<open>\<open>storageMap[k]\<close>: an own property, else what the prototype chain has.\<close>

definition storage_map_get :: "(ref \<Rightarrow> Storage) \<Rightarrow> StorageMap \<Rightarrow> string \<Rightarrow> member" where
  "storage_map_get h m k =
     (case own m k of
        Some st \<Rightarrow> StorageObject st
      | None \<Rightarrow>
          (case proto m of
             None \<Rightarrow> if k = ''__proto__'' then PrototypeObject else lookup_Object_prototype k
           | Some r \<Rightarrow> if k = ''__proto__'' then StorageObject r else lookup_storage_object (h r) k))"

text \<open>An argument that is absent, one object, or an array of them.\<close>

datatype 'a input = Absent | Single 'a | Array "'a list"

record FlaggOpts =
  opt_storage :: "ref input"
  opt_definitions :: "FlagDefinitions option"
  opt_hydrateFrom :: "ref input"

definition DEFAULT_STORAGE_NAME :: string where
  "DEFAULT_STORAGE_NAME = ''_default''"

fun makeArray :: "'a input \<Rightarrow> 'a list" where
  "makeArray (Array xs) = xs"
| "makeArray (Single x) = [x]"
| "makeArray Absent = []"

text \<open>
  The assignment \<open>acc[storage.name] = storage\<close> makes or replaces an own property,
  except for the name \<open>__proto__\<close>: that runs the inherited setter, which makes the
  storage object the prototype of \<open>acc\<close> and adds no own property.
\<close>

definition assign_storage :: "(ref \<Rightarrow> Storage) \<Rightarrow> StorageMap \<Rightarrow> ref \<Rightarrow> StorageMap" where
  "assign_storage h acc st =
     (if name (h st) = ''__proto__'' then acc\<lparr>proto := Some st\<rparr>
      else acc\<lparr>own := (own acc)(name (h st) \<mapsto> st)\<rparr>)"

text \<open>\<open>reduce\<close> runs left to right from the initial object \<open>{_default: storageArr[0]}\<close>;
  \<open>storageArr[0]\<close> of an empty array is \<open>undefined\<close>.\<close>

definition makeStorageMap :: "(ref \<Rightarrow> Storage) \<Rightarrow> ref input \<Rightarrow> StorageMap" where
  "makeStorageMap h storage_input =
     (let storageArr = makeArray storage_input in
      foldl (assign_storage h)
        \<lparr>own = (\<lambda>k. None)
           (DEFAULT_STORAGE_NAME := (case storageArr of [] \<Rightarrow> None | st # _ \<Rightarrow> Some st)),
         proto = None\<rparr>
        storageArr)"

text \<open>
  \<open>definitions[flagName]\<close>: the flag's definition when the registry has one of its own;
  else, for a member name of \<open>Object.prototype\<close>, the inherited member; else
  \<open>undefined\<close> (\<open>None\<close>). The inherited member is a function, or \<open>Object.prototype\<close>
  itself for \<open>__proto__\<close>: it is truthy and has no property \<open>default\<close>, \<open>options\<close> or
  \<open>storage\<close>, which is all the core reads of a \<open>flagDef\<close>.
\<close>

definition inherited_member :: FlagDefinition where
  "inherited_member = \<lparr>default_value = Undefined, options = None, storage = None\<rparr>"

definition getFlagDef :: "FlagDefinitions \<Rightarrow> string \<Rightarrow> FlagDefinition option" where
  "getFlagDef definitions flagName =
     (case definitions flagName of
        Some d \<Rightarrow> Some d
      | None \<Rightarrow> if flagName \<in> set Object_prototype_names then Some inherited_member else None)"

text \<open>The functions below take the \<open>flagDef\<close> they are handed, which is \<open>undefined\<close>
  (\<open>None\<close>) for an unknown flag; reading a property of \<open>undefined\<close> throws a TypeError.\<close>

definition getFlagDefaultValue :: "FlagDefinition option \<Rightarrow> error + jsval" where
  "getFlagDefaultValue flagDef =
     (case flagDef of
        None \<Rightarrow> Inl TypeError
      | Some d \<Rightarrow> Inr (if default_value d = Undefined then Null else default_value d))"

text \<open>Indexing the storage map with an absent storage name indexes it with the
  property key \<open>undefined\<close>, that is with the string of that spelling.\<close>

definition property_key :: "string option \<Rightarrow> string" where
  "property_key storageName = (case storageName of None \<Rightarrow> ''undefined'' | Some s \<Rightarrow> s)"

definition storage_not_available :: "string \<Rightarrow> string" where
  "storage_not_available storageName =
     ''Flagg storage '' @ [CHR 0x22] @ storageName @ [CHR 0x22] @
     '' not available. Did you forget to include it? Using default storage instead.''"

definition index_storage_map :: "StorageMap \<Rightarrow> string \<Rightarrow> member js" where
  "index_storage_map storageMap k = (\<lambda>w. (Inr (storage_map_get (heap w) storageMap k), w))"

definition resolveFlagStorage :: "FlagDefinition option \<Rightarrow> StorageMap \<Rightarrow> member js" where
  "resolveFlagStorage flagDef storageMap =
     (case flagDef of
        None \<Rightarrow> throwJ TypeError
      | Some d \<Rightarrow>
          (let storageName = storage d in
           bindJ (index_storage_map storageMap (property_key storageName)) (\<lambda>st.
             if truthy_member st then returnJ st
             else
               bindJ (case storageName of
                        Some n \<Rightarrow> console_warn (storage_not_available n)
                      | None \<Rightarrow> returnJ ())
                 (\<lambda>_. index_storage_map storageMap DEFAULT_STORAGE_NAME))))"

text \<open>\<open>storage.get(flagName)\<close> throws a TypeError unless the storage is a storage
  object: \<open>undefined\<close> has no properties, and a function, \<open>Object.prototype\<close> and a
  string have no \<open>get\<close> to call.\<close>

definition getFlagValue :: "FlagDefinition \<Rightarrow> string \<Rightarrow> StorageMap \<Rightarrow> jsval js" where
  "getFlagValue flagDef flagName storageMap =
     bindJ (resolveFlagStorage (Some flagDef) storageMap)
       (\<lambda>st. case st of StorageObject r \<Rightarrow> call_get r flagName | _ \<Rightarrow> throwJ TypeError)"

definition getResolvedFlagValue :: "FlagDefinitions \<Rightarrow> string \<Rightarrow> StorageMap \<Rightarrow> jsval js" where
  "getResolvedFlagValue definitions flagName storageMap =
     (case getFlagDef definitions flagName of
        None \<Rightarrow> returnJ Null
      | Some flagDef \<Rightarrow>
          bindJ (liftJ (getFlagDefaultValue (Some flagDef))) (\<lambda>defaultValue.
          bindJ (getFlagValue flagDef flagName storageMap) (\<lambda>v.
            if v = Undefined \<or> v = Null then returnJ defaultValue else returnJ v)))"

definition read_only_warning :: "string \<Rightarrow> string" where
  "read_only_warning storageName = ''Flagg: Attempting to write to readOnly storage '' @ storageName"

text \<open>
  \<open>'remove' in storage\<close> and \<open>'set' in storage\<close> throw a TypeError when the storage is
  \<open>undefined\<close> or a string. A function and \<open>Object.prototype\<close> have neither property, so
  the core warns, with their \<open>name\<close>: the function's, and \<open>undefined\<close> for
  \<open>Object.prototype\<close>.
\<close>

definition remove_or_warn :: "member \<Rightarrow> string \<Rightarrow> unit js" where
  "remove_or_warn st flagName =
     (case st of
        NoMember \<Rightarrow> throwJ TypeError
      | StringValue s \<Rightarrow> throwJ TypeError
      | StorageObject r \<Rightarrow> (\<lambda>w. if has_remove (heap w r) then call_remove r flagName w
                        else console_warn (read_only_warning (name (heap w r))) w)
      | FunctionObject n \<Rightarrow> console_warn (read_only_warning n)
      | PrototypeObject \<Rightarrow> console_warn (read_only_warning ''undefined''))"

definition set_or_warn :: "member \<Rightarrow> string \<Rightarrow> jsval \<Rightarrow> unit js" where
  "set_or_warn st flagName v =
     (case st of
        NoMember \<Rightarrow> throwJ TypeError
      | StringValue s \<Rightarrow> throwJ TypeError
      | StorageObject r \<Rightarrow> (\<lambda>w. if has_set (heap w r) then call_set r flagName v w
                        else console_warn (read_only_warning (name (heap w r))) w)
      | FunctionObject n \<Rightarrow> console_warn (read_only_warning n)
      | PrototypeObject \<Rightarrow> console_warn (read_only_warning ''undefined''))"

definition setFlagValue :: "FlagDefinitions \<Rightarrow> string \<Rightarrow> jsval \<Rightarrow> StorageMap \<Rightarrow> unit js" where
  "setFlagValue definitions flagName v storageMap =
     (let flagDef = getFlagDef definitions flagName in
      bindJ (resolveFlagStorage flagDef storageMap) (\<lambda>st.
      bindJ (liftJ (getFlagDefaultValue flagDef)) (\<lambda>defaultValue.
        if JSON_stringify v = JSON_stringify defaultValue
        then remove_or_warn st flagName
        else set_or_warn st flagName v)))"

datatype flag_type = TSelect | TString | TBoolean

fun is_string :: "jsval \<Rightarrow> bool" where
  "is_string (Str s) = True"
| "is_string v = False"

definition getFlagType :: "FlagDefinition option \<Rightarrow> error + flag_type" where
  "getFlagType flagDef =
     (case flagDef of
        None \<Rightarrow> Inl TypeError
      | Some d \<Rightarrow>
          if options d \<noteq> None then Inr TSelect
          else if is_string (default_value d) then Inr TString
          else Inr TBoolean)"

subsection \<open>The store made by \<open>flagg\<close>\<close>

text \<open>The closure's variables: \<open>definitions\<close> is reassigned by \<open>setDefinitions\<close>, the
  other two are constant.\<close>

record Flagg =
  definitions :: FlagDefinitions
  storageMap :: StorageMap
  hydrateFromStorages :: "ref list"

definition get :: "Flagg \<Rightarrow> string \<Rightarrow> jsval js" where
  "get f flagName = getResolvedFlagValue (definitions f) flagName (storageMap f)"

definition getDefault :: "Flagg \<Rightarrow> string \<Rightarrow> jsval js" where
  "getDefault f flagName = liftJ (getFlagDefaultValue (getFlagDef (definitions f) flagName))"

definition isOn :: "Flagg \<Rightarrow> string \<Rightarrow> bool js" where
  "isOn f flagName = bindJ (get f flagName) (\<lambda>v. returnJ (truthy v))"

text \<open>\<open>set\<close> takes a flag name and a value (\<open>Undefined\<close> when omitted) or a mapping, whose
  entries are listed in the order \<open>Object.entries\<close> gives them.\<close>

datatype set_arg = FlagName string | Flags "(string \<times> jsval) list"

fun forEach :: "('a \<Rightarrow> unit js) \<Rightarrow> 'a list \<Rightarrow> unit js" where
  "forEach f [] = returnJ ()"
| "forEach f (x # xs) = bindJ (f x) (\<lambda>_. forEach f xs)"

fun set' :: "Flagg \<Rightarrow> set_arg \<Rightarrow> jsval \<Rightarrow> unit js" where
  "set' f (FlagName flagName) v =
     (if v \<noteq> Undefined then setFlagValue (definitions f) flagName v (storageMap f)
      else returnJ ())"
| "set' f (Flags flags) v =
     forEach (\<lambda>(flagName, v'). setFlagValue (definitions f) flagName v' (storageMap f)) flags"

definition isOverridden :: "Flagg \<Rightarrow> string \<Rightarrow> bool js" where
  "isOverridden f flagName =
     (let flagDef = getFlagDef (definitions f) flagName in
      bindJ (liftJ (getFlagType flagDef)) (\<lambda>t.
        if t = TBoolean
        then bindJ (isOn f flagName) (\<lambda>a. bindJ (getDefault f flagName) (\<lambda>b. returnJ (a \<noteq> truthy b)))
        else bindJ (get f flagName) (\<lambda>a. bindJ (getDefault f flagName) (\<lambda>b. returnJ (a \<noteq> b)))))"

text \<open>
  \<open>hydrate\<close> starts one asynchronous function per hydration source. Each runs up to its
  \<open>await\<close> at once: it calls \<open>all()\<close>, or throws a TypeError inside the asynchronous
  function when the source has no \<open>all\<close>, which rejects its promise. What is left is
  the continuation \<open>set(values)\<close>, run later with the mapping the source delivers.
\<close>

datatype pending = Rejected error | Awaiting "(string \<times> jsval) list"

fun hydrate_from :: "ref list \<Rightarrow> world \<Rightarrow> pending list \<times> world" where
  "hydrate_from [] w = ([], w)"
| "hydrate_from (r # rs) w =
     (if has_all (heap w r)
      then (case call_all r w of
              (Inr values, w1) \<Rightarrow> (case hydrate_from rs w1 of (ps, w2) \<Rightarrow> (Awaiting values # ps, w2))
            | (Inl e, w1) \<Rightarrow> (case hydrate_from rs w1 of (ps, w2) \<Rightarrow> (Rejected e # ps, w2)))
      else (case hydrate_from rs w of (ps, w2) \<Rightarrow> (Rejected TypeError # ps, w2)))"

definition hydrate :: "Flagg \<Rightarrow> world \<Rightarrow> pending list \<times> world" where
  "hydrate f = hydrate_from (hydrateFromStorages f)"


definition setDefinitions :: "Flagg \<Rightarrow> FlagDefinitions \<Rightarrow> world \<Rightarrow> Flagg \<times> pending list \<times> world" where
  "setDefinitions f newDefinitions w =
     (let f' = f\<lparr>definitions := newDefinitions\<rparr> in
      case hydrate f' w of (ps, w') \<Rightarrow> (f', ps, w'))"

definition getDefinitions :: "Flagg \<Rightarrow> FlagDefinitions" where
  "getDefinitions f = definitions f"

definition flagg :: "FlaggOpts \<Rightarrow> world \<Rightarrow> Flagg \<times> pending list \<times> world" where
  "flagg opts w =
     (let f = \<lparr>definitions = (case opt_definitions opts of None \<Rightarrow> (\<lambda>k. None) | Some ds \<Rightarrow> ds),
               storageMap = makeStorageMap (heap w) (opt_storage opts),
               hydrateFromStorages = makeArray (opt_hydrateFrom opts)\<rparr> in
      case hydrate f w of (ps, w') \<Rightarrow> (f, ps, w'))"

section \<open>A configuration to run the store on\<close>

text \<open>Four storage objects: a read-write one at address 0, a read-only hydration
  source at address 1 that holds \<open>{a: true}\<close>, a second read-write one at address 2 and
  an empty read-only one at address 3.\<close>

definition mem_storage :: Storage where
  "mem_storage = \<lparr>name = ''mem'', has_set = True, has_remove = True, has_all = False, items = []\<rparr>"

definition remote_storage :: Storage where
  "remote_storage =
     \<lparr>name = ''remote'', has_set = False, has_remove = False, has_all = True,
      items = [(''a'', Bool True)]\<rparr>"

definition other_storage :: Storage where
  "other_storage = \<lparr>name = ''other'', has_set = True, has_remove = True, has_all = False, items = []\<rparr>"

definition frozen_storage :: Storage where
  "frozen_storage =
     \<lparr>name = ''frozen'', has_set = False, has_remove = False, has_all = False, items = []\<rparr>"

definition ex_world :: world where
  "ex_world =
     \<lparr>heap = (\<lambda>r. if r = 1 then remote_storage else if r = 2 then other_storage
                 else if r = 3 then frozen_storage else mem_storage),
      warnings = [], calls = []\<rparr>"

definition flag_def :: "jsval \<Rightarrow> FlagDefinition" where
  "flag_def d = \<lparr>default_value = d, options = None, storage = None\<rparr>"

definition ex_definitions :: FlagDefinitions where
  "ex_definitions =
     map_of
       [(''a'', flag_def (Bool False)),
        (''b'', flag_def (Bool True)),
        (''c'', (flag_def (Str ''red''))\<lparr>options := Some [''red'', ''green'']\<rparr>),
        (''n'', flag_def Undefined),
        (''x'', (flag_def (Bool False))\<lparr>storage := Some ''other''\<rparr>),
        (''y'', (flag_def (Bool False))\<lparr>storage := Some ''missing''\<rparr>),
        (''z'', (flag_def (Bool False))\<lparr>storage := Some ''toString''\<rparr>)]"

definition ex_opts :: FlaggOpts where
  "ex_opts =
     \<lparr>opt_storage = Array [0, 2], opt_definitions = Some ex_definitions,
      opt_hydrateFrom = Single 1\<rparr>"

definition ex_flagg :: Flagg where
  "ex_flagg = fst (flagg ex_opts ex_world)"

definition ex_pending :: "pending list" where
  "ex_pending = fst (snd (flagg ex_opts ex_world))"

definition ex_constructed :: world where
  "ex_constructed = snd (snd (flagg ex_opts ex_world))"

text \<open>The same, with the read-only storage as the only storage.\<close>

definition ro_opts :: FlaggOpts where
  "ro_opts =
     \<lparr>opt_storage = Single 3, opt_definitions = Some ex_definitions,
      opt_hydrateFrom = Single 1\<rparr>"

definition ro_flagg :: Flagg where
  "ro_flagg = fst (flagg ro_opts ex_world)"

section \<open>Basic facts\<close>

lemmas js_defs = returnJ_def throwJ_def bindJ_def liftJ_def console_warn_def
  call_get_def call_set_def call_remove_def call_all_def index_storage_map_def

lemma interface_storage_set: "interface (storage_set s k v) = interface s"
  by (simp add: interface_def storage_set_def)

lemma interface_storage_remove: "interface (storage_remove s k) = interface s"
  by (simp add: interface_def storage_remove_def)

lemma storage_map_get_interface:
  assumes "\<And>r. interface (h' r) = interface (h r)"
  shows "storage_map_get h' m k = storage_map_get h m k"
proof -
  have "lookup_storage_object (h' r) k = lookup_storage_object (h r) k" for r
    using assms [of r] by (simp add: lookup_storage_object_def interface_def)
  then show ?thesis
    by (simp add: storage_map_get_def split: option.splits)
qed

lemma resolveFlagStorage_fst:
  assumes "\<And>r. interface (heap w' r) = interface (heap w r)"
  shows "fst (resolveFlagStorage fd m w') = fst (resolveFlagStorage fd m w)"
  using storage_map_get_interface [of "heap w'" "heap w" m, OF assms]
  by (simp add: resolveFlagStorage_def js_defs Let_def split: option.splits)

lemma resolveFlagStorage_heap: "heap (snd (resolveFlagStorage fd m w)) = heap w"
  by (simp add: resolveFlagStorage_def js_defs Let_def split: option.splits)

lemma resolveFlagStorage_calls: "calls (snd (resolveFlagStorage fd m w)) = calls w"
  by (simp add: resolveFlagStorage_def js_defs Let_def split: option.splits)

lemma getFlagDef_own: "defs flag = Some d \<Longrightarrow> getFlagDef defs flag = Some d"
  by (simp add: getFlagDef_def)

lemma getFlagDef_None:
  "getFlagDef defs flag = None \<longleftrightarrow> defs flag = None \<and> flag \<notin> set Object_prototype_names"
  by (simp add: getFlagDef_def split: option.splits)

lemma storage_get_set: "storage_get (storage_set s k v) k' = (if k' = k then v else storage_get s k')"
  by (simp add: storage_get_def storage_set_def update_conv')

lemma storage_get_remove:
  "storage_get (storage_remove s k) k' = (if k' = k then Undefined else storage_get s k')"
  by (simp add: storage_get_def storage_remove_def delete_conv')

lemma bindJ_fst_Inr:
  "fst (m w) = Inr x \<Longrightarrow> bindJ m f w = f x (snd (m w))"
  by (cases "m w") (simp add: bindJ_def)

lemma bindJ_fst_Inl:
  "fst (m w) = Inl e \<Longrightarrow> bindJ m f w = (Inl e, snd (m w))"
  by (cases "m w") (simp add: bindJ_def)

lemma setFlagValue_differs:
  assumes "defs flag = Some d"
    and "fst (resolveFlagStorage (Some d) m w) = Inr (StorageObject r)"
    and "has_set (heap w r)"
    and "getFlagDefaultValue (Some d) = Inr dv"
    and "JSON_stringify v \<noteq> JSON_stringify dv"
  shows "fst (setFlagValue defs flag v m w) = Inr ()"
    and "heap (snd (setFlagValue defs flag v m w)) = (heap w)(r := storage_set (heap w r) flag v)"
    and "calls (snd (setFlagValue defs flag v m w)) = calls w @ [CallSet r flag v]"
  using assms resolveFlagStorage_heap [of "Some d" m w] resolveFlagStorage_calls [of "Some d" m w]
  by (simp_all add: setFlagValue_def getFlagDef_own bindJ_fst_Inr liftJ_def set_or_warn_def
      call_set_def)

lemma setFlagValue_equals:
  assumes "defs flag = Some d"
    and "fst (resolveFlagStorage (Some d) m w) = Inr (StorageObject r)"
    and "has_remove (heap w r)"
    and "getFlagDefaultValue (Some d) = Inr dv"
    and "JSON_stringify v = JSON_stringify dv"
  shows "fst (setFlagValue defs flag v m w) = Inr ()"
    and "heap (snd (setFlagValue defs flag v m w)) = (heap w)(r := storage_remove (heap w r) flag)"
    and "calls (snd (setFlagValue defs flag v m w)) = calls w @ [CallRemove r flag]"
  using assms resolveFlagStorage_heap [of "Some d" m w] resolveFlagStorage_calls [of "Some d" m w]
  by (simp_all add: setFlagValue_def getFlagDef_own bindJ_fst_Inr liftJ_def remove_or_warn_def
      call_remove_def)

lemma get_defined:
  assumes "definitions f flag = Some d"
    and "fst (resolveFlagStorage (Some d) (storageMap f) w) = Inr (StorageObject r)"
    and "getFlagDefaultValue (Some d) = Inr dv"
  shows "fst (get f flag w) =
    Inr (if storage_get (heap w r) flag = Undefined \<or> storage_get (heap w r) flag = Null
         then dv else storage_get (heap w r) flag)"
  using assms resolveFlagStorage_heap [of "Some d" "storageMap f" w]
  by (simp add: get_def getResolvedFlagValue_def getFlagDef_own getFlagValue_def
      bindJ_fst_Inr liftJ_def call_get_def returnJ_def)

lemma isOverridden_value:
  assumes "definitions f flag = Some d"
    and "fst (get f flag w) = Inr g"
    and "getFlagDefaultValue (Some d) = Inr dv"
  shows "fst (isOverridden f flag w) =
    Inr (if getFlagType (Some d) = Inr TBoolean then truthy g \<noteq> truthy dv else g \<noteq> dv)"
  using assms
  by (simp add: isOverridden_def isOn_def getDefault_def getFlagDef_own getFlagType_def
      bindJ_fst_Inr liftJ_def returnJ_def Let_def)

lemma forEach_append:
  "forEach g (xs @ ys) w = bindJ (forEach g xs) (\<lambda>_. forEach g ys) w"
proof (induction xs arbitrary: w)
  case Nil
  show ?case by (simp add: js_defs)
next
  case (Cons x xs)
  show ?case
  proof (cases "g x w")
    case (Pair a w')
    then show ?thesis
      by (cases a) (simp_all add: bindJ_def Cons.IH)
  qed
qed

lemma remove_or_warn_throws:
  "fst (remove_or_warn st k w) = Inl e \<Longrightarrow> remove_or_warn st k w = (Inl e, w)"
  by (cases st) (simp_all add: remove_or_warn_def js_defs split: if_splits)

lemma set_or_warn_throws:
  "fst (set_or_warn st k v w) = Inl e \<Longrightarrow> set_or_warn st k v w = (Inl e, w)"
  by (cases st) (simp_all add: set_or_warn_def js_defs split: if_splits)

lemma remove_or_warn_interface:
  "interface (heap (snd (remove_or_warn st k w)) r) = interface (heap w r)"
  by (cases st) (simp_all add: remove_or_warn_def js_defs interface_storage_remove)

lemma set_or_warn_interface:
  "interface (heap (snd (set_or_warn st k v w)) r) = interface (heap w r)"
  by (cases st) (simp_all add: set_or_warn_def js_defs interface_storage_set)

text \<open>\<open>setFlagValue\<close> is the resolution of the storage followed by one of the two
  branches, or it throws with the world the resolution left.\<close>

lemma setFlagValue_cases:
  obtains (throws) e where
      "setFlagValue defs k v m w = (Inl e, snd (resolveFlagStorage (getFlagDef defs k) m w))"
  | (removes) st where
      "setFlagValue defs k v m w =
         remove_or_warn st k (snd (resolveFlagStorage (getFlagDef defs k) m w))"
  | (sets) st where
      "setFlagValue defs k v m w =
         set_or_warn st k v (snd (resolveFlagStorage (getFlagDef defs k) m w))"
proof -
  let ?fd = "getFlagDef defs k"
  obtain a w1 where r: "resolveFlagStorage ?fd m w = (a, w1)"
    by (cases "resolveFlagStorage ?fd m w")
  show thesis
  proof (cases a)
    case (Inl e)
    then have "setFlagValue defs k v m w = (Inl e, snd (resolveFlagStorage ?fd m w))"
      using r by (simp add: setFlagValue_def bindJ_def Let_def)
    then show ?thesis by (rule throws)
  next
    case (Inr st)
    show ?thesis
    proof (cases "getFlagDefaultValue ?fd")
      case (Inl e)
      then have "setFlagValue defs k v m w = (Inl e, snd (resolveFlagStorage ?fd m w))"
        using r Inr by (simp add: setFlagValue_def bindJ_def liftJ_def Let_def)
      then show ?thesis by (rule throws)
    next
      case dv: (Inr dv)
      show ?thesis
      proof (cases "JSON_stringify v = JSON_stringify dv")
        case True
        then have "setFlagValue defs k v m w =
            remove_or_warn st k (snd (resolveFlagStorage ?fd m w))"
          using r Inr dv by (simp add: setFlagValue_def bindJ_def liftJ_def Let_def)
        then show ?thesis by (rule removes)
      next
        case False
        then have "setFlagValue defs k v m w =
            set_or_warn st k v (snd (resolveFlagStorage ?fd m w))"
          using r Inr dv by (simp add: setFlagValue_def bindJ_def liftJ_def Let_def)
        then show ?thesis by (rule sets)
      qed
    qed
  qed
qed

lemma setFlagValue_throws:
  assumes "fst (setFlagValue defs k v m w) = Inl e"
  shows "heap (snd (setFlagValue defs k v m w)) = heap w"
    and "calls (snd (setFlagValue defs k v m w)) = calls w"
proof -
  let ?w1 = "snd (resolveFlagStorage (getFlagDef defs k) m w)"
  have hw1: "heap ?w1 = heap w" "calls ?w1 = calls w"
    by (simp_all add: resolveFlagStorage_heap resolveFlagStorage_calls)
  have "heap (snd (setFlagValue defs k v m w)) = heap w \<and>
      calls (snd (setFlagValue defs k v m w)) = calls w"
  proof (rule setFlagValue_cases [where defs = defs and k = k and v = v and m = m and w = w],
      goal_cases)
    case (1 e')
    then show ?case using hw1 by simp
  next
    case (2 st)
    with assms remove_or_warn_throws [of st k ?w1 e] hw1 show ?case by simp
  next
    case (3 st)
    with assms set_or_warn_throws [of st k v ?w1 e] hw1 show ?case by simp
  qed
  then show "heap (snd (setFlagValue defs k v m w)) = heap w"
    and "calls (snd (setFlagValue defs k v m w)) = calls w"
    by simp_all
qed

lemma setFlagValue_interface:
  "interface (heap (snd (setFlagValue defs k v m w)) r) = interface (heap w r)"
proof (rule setFlagValue_cases [where defs = defs and k = k and v = v and m = m and w = w],
    goal_cases)
  case (1 e)
  then show ?case by (simp add: resolveFlagStorage_heap)
next
  case (2 st)
  then show ?case by (simp add: remove_or_warn_interface resolveFlagStorage_heap)
next
  case (3 st)
  then show ?case by (simp add: set_or_warn_interface resolveFlagStorage_heap)
qed

lemma forEach_interface:
  assumes "\<And>x w r. interface (heap (snd (g x w)) r) = interface (heap w r)"
  shows "interface (heap (snd (forEach g xs w)) r) = interface (heap w r)"
proof (induction xs arbitrary: w)
  case Nil
  show ?case by (simp add: returnJ_def)
next
  case (Cons x xs)
  show ?case
  proof (cases "g x w")
    case (Pair a w')
    have "interface (heap w' r) = interface (heap w r)"
      using assms [of x w r] Pair by simp
    with Cons.IH [of w'] Pair show ?thesis
      by (cases a) (simp_all add: bindJ_def)
  qed
qed

lemma set'_interface:
  "interface (heap (snd (set' f arg v w)) r) = interface (heap w r)"
proof (cases arg)
  case (FlagName k)
  then show ?thesis by (simp add: setFlagValue_interface returnJ_def)
next
  case (Flags flags)
  have "interface (heap (snd ((case x of (flagName, v') \<Rightarrow>
      setFlagValue (definitions f) flagName v' (storageMap f)) w)) r) = interface (heap w r)"
    for x :: "string \<times> jsval" and w r
    by (cases x) (simp add: setFlagValue_interface)
  then have "interface (heap (snd (forEach
      (\<lambda>(flagName, v'). setFlagValue (definitions f) flagName v' (storageMap f)) flags w)) r)
      = interface (heap w r)"
    by (rule forEach_interface)
  then show ?thesis using Flags by simp
qed

lemma bindJ_returnJ: "bindJ m returnJ = m"
proof
  fix w show "bindJ m returnJ w = m w"
    by (cases "m w") (auto simp: js_defs split: sum.splits)
qed



lemma foldl_bind_name:
  "distinct (map (\<lambda>st. name (h st)) xs) \<Longrightarrow> st \<in> set xs \<Longrightarrow>
   foldl (\<lambda>acc st. acc(name (h st) \<mapsto> st)) m0 xs (name (h st)) = Some st"
proof (induction xs rule: rev_induct)
  case Nil
  then show ?case by simp
next
  case (snoc x xs)
  show ?case
  proof (cases "st = x")
    case True
    then show ?thesis by simp
  next
    case False
    with snoc.prems have in_xs: "st \<in> set xs"
      by simp
    then have "name (h st) \<in> (\<lambda>st. name (h st)) ` set xs"
      by (rule imageI)
    with snoc.prems(1) have ne: "name (h st) \<noteq> name (h x)"
      by auto
    from snoc.prems(1) have "distinct (map (\<lambda>st. name (h st)) xs)"
      by simp
    from snoc.IH [OF this in_xs] ne show ?thesis by simp
  qed
qed

lemma foldl_bind_other:
  "k \<notin> (\<lambda>st. name (h st)) ` set xs \<Longrightarrow>
   foldl (\<lambda>acc st. acc(name (h st) \<mapsto> st)) m0 xs k = m0 k"
  by (induction xs rule: rev_induct) auto

lemma foldl_assign_own:
  "''__proto__'' \<notin> (\<lambda>st. name (h st)) ` set xs \<Longrightarrow>
   foldl (assign_storage h) m0 xs =
     m0\<lparr>own := foldl (\<lambda>acc st. acc(name (h st) \<mapsto> st)) (own m0) xs\<rparr>"
  by (induction xs arbitrary: m0) (auto simp: assign_storage_def)


subsection \<open>The configuration, evaluated\<close>

lemma ex_flagg_eq:
  "ex_flagg = \<lparr>definitions = ex_definitions,
     storageMap =
       \<lparr>own = (\<lambda>k. None)(''_default'' \<mapsto> 0, ''mem'' \<mapsto> 0, ''other'' \<mapsto> 2), proto = None\<rparr>,
     hydrateFromStorages = [1]\<rparr>"
  by (simp add: ex_flagg_def flagg_def ex_opts_def makeStorageMap_def assign_storage_def
      ex_world_def hydrate_def
      mem_storage_def other_storage_def remote_storage_def DEFAULT_STORAGE_NAME_def Let_def
      call_all_def split: prod.splits)

lemma ex_constructed_eq: "ex_constructed = ex_world\<lparr>calls := [CallAll 1]\<rparr>"
  by (simp add: ex_constructed_def flagg_def ex_opts_def ex_world_def hydrate_def
      remote_storage_def Let_def call_all_def split: prod.splits)

lemma ex_pending_eq: "ex_pending = [Awaiting [(''a'', Bool True)]]"
  by (simp add: ex_pending_def flagg_def ex_opts_def ex_world_def hydrate_def
      remote_storage_def Let_def call_all_def storage_all_def split: prod.splits)

lemma ro_flagg_eq:
  "ro_flagg = \<lparr>definitions = ex_definitions,
     storageMap = \<lparr>own = (\<lambda>k. None)(''_default'' \<mapsto> 3, ''frozen'' \<mapsto> 3), proto = None\<rparr>,
     hydrateFromStorages = [1]\<rparr>"
  by (simp add: ro_flagg_def flagg_def ro_opts_def makeStorageMap_def assign_storage_def
      ex_world_def hydrate_def
      frozen_storage_def remote_storage_def DEFAULT_STORAGE_NAME_def Let_def
      call_all_def split: prod.splits)


lemmas ex_simps = ex_flagg_eq ex_constructed_eq ex_pending_eq ro_flagg_eq ex_world_def
  ex_definitions_def flag_def_def mem_storage_def other_storage_def remote_storage_def
  frozen_storage_def

lemmas core_defs = get_def getDefault_def isOn_def isOverridden_def getResolvedFlagValue_def
  getFlagValue_def getFlagDef_def getFlagDefaultValue_def getFlagType_def setFlagValue_def
  resolveFlagStorage_def remove_or_warn_def set_or_warn_def property_key_def
  DEFAULT_STORAGE_NAME_def storage_get_def storage_set_def storage_remove_def storage_all_def
  storage_map_get_def lookup_Object_prototype_def lookup_storage_object_def
  Object_prototype_names_def inherited_member_def

lemma ex_set_a:
  "set' ex_flagg (Flags [(''a'', Bool True)]) Undefined ex_constructed =
     (Inr (), ex_constructed
        \<lparr>heap := (heap ex_constructed)(0 := mem_storage\<lparr>items := [(''a'', Bool True)]\<rparr>),
         calls := [CallAll 1, CallSet 0 ''a'' (Bool True)]\<rparr>)"
  by (simp add: ex_simps core_defs js_defs Let_def)


section \<open>Writing a value that differs from the default\<close>

text \<open>
  C1, as amended. Let a flag have a definition whose storage resolves to a storage
  object that has \<open>set\<close>, and let \<open>v\<close> be neither \<open>undefined\<close> nor \<open>null\<close> and serialize
  differently from the flag's default. Then \<open>set(flag, v)\<close> returns, \<open>get(flag)\<close> returns
  \<open>v\<close> afterwards, and \<open>isOverridden(flag)\<close> returns true for a flag of string or select
  type, and for a flag of boolean type returns whether the boolean coercions of \<open>v\<close> and
  of the default differ.
\<close>

theorem set_then_get_overridden:
  assumes "definitions f flag = Some d"
    and "fst (resolveFlagStorage (Some d) (storageMap f) w) = Inr (StorageObject r)"
    and "has_set (heap w r)"
    and "getFlagDefaultValue (Some d) = Inr dv"
    and "JSON_stringify v \<noteq> JSON_stringify dv"
    and "v \<noteq> Undefined" and "v \<noteq> Null"
  shows "fst (set' f (FlagName flag) v w) = Inr () \<and>
    fst (get f flag (snd (set' f (FlagName flag) v w))) = Inr v \<and>
    fst (isOverridden f flag (snd (set' f (FlagName flag) v w))) =
      Inr (if getFlagType (Some d) = Inr TBoolean then truthy v \<noteq> truthy dv else True)"
proof -
  let ?w = "snd (set' f (FlagName flag) v w)"
  have s: "set' f (FlagName flag) v = setFlagValue (definitions f) flag v (storageMap f)"
    using assms(6) by simp
  have ok: "fst (set' f (FlagName flag) v w) = Inr ()"
    unfolding s using assms(1-5) by (rule setFlagValue_differs(1))
  have hp: "heap ?w = (heap w)(r := storage_set (heap w r) flag v)"
    unfolding s using assms(1-5) by (rule setFlagValue_differs(2))
  have res: "fst (resolveFlagStorage (Some d) (storageMap f) ?w) = Inr (StorageObject r)"
    using assms(2) resolveFlagStorage_fst [of ?w w "Some d" "storageMap f", OF set'_interface]
    by simp
  have g: "fst (get f flag ?w) = Inr v"
    using get_defined [OF assms(1) res assms(4)] assms(6,7)
    by (simp add: hp storage_get_set del: set'.simps)
  have "v \<noteq> dv" using assms(5) by auto
  then have o: "fst (isOverridden f flag ?w) =
      Inr (if getFlagType (Some d) = Inr TBoolean then truthy v \<noteq> truthy dv else True)"
    using isOverridden_value [OF assms(1) g assms(4)] by (simp del: set'.simps)
  from ok g o show ?thesis by blast
qed

theorem set_then_get_overridden_witness:
  "definitions ex_flagg ''a'' = Some (flag_def (Bool False)) \<and>
   fst (resolveFlagStorage (Some (flag_def (Bool False))) (storageMap ex_flagg) ex_constructed)
     = Inr (StorageObject 0) \<and>
   has_set (heap ex_constructed 0) \<and>
   getFlagDefaultValue (Some (flag_def (Bool False))) = Inr (Bool False) \<and>
   JSON_stringify (Bool True) \<noteq> JSON_stringify (Bool False) \<and>
   fst (set' ex_flagg (FlagName ''a'') (Bool True) ex_constructed) = Inr () \<and>
   fst (get ex_flagg ''a'' (snd (set' ex_flagg (FlagName ''a'') (Bool True) ex_constructed)))
     = Inr (Bool True) \<and>
   fst (isOverridden ex_flagg ''a'' (snd (set' ex_flagg (FlagName ''a'') (Bool True) ex_constructed)))
     = Inr True"
proof -
  have h1: "definitions ex_flagg ''a'' = Some (flag_def (Bool False))"
    by (simp add: ex_simps)
  have h2: "fst (resolveFlagStorage (Some (flag_def (Bool False))) (storageMap ex_flagg)
      ex_constructed) = Inr (StorageObject 0)"
    by (simp add: ex_simps core_defs js_defs)
  have h3: "has_set (heap ex_constructed 0)"
    by (simp add: ex_simps)
  have h4: "getFlagDefaultValue (Some (flag_def (Bool False))) = Inr (Bool False)"
    by (simp add: getFlagDefaultValue_def flag_def_def)
  have h5: "JSON_stringify (Bool True) \<noteq> JSON_stringify (Bool False)"
    by simp
  have t: "getFlagType (Some (flag_def (Bool False))) = Inr TBoolean"
    by (simp add: getFlagType_def flag_def_def)
  show ?thesis
    using set_then_get_overridden [OF h1 h2 h3 h4 h5] h1 h2 h3 h4 t
    by (simp del: set'.simps)
qed

text \<open>
  C1 as stated fails for \<open>null\<close>: with default \<open>true\<close>, \<open>set('b', null)\<close> stores \<open>null\<close>,
  which serializes differently from the default, and \<open>get\<close> then falls back to the default;
  \<open>isOverridden\<close> is false.
\<close>

theorem set_null_counterexample:
  "definitions ex_flagg ''b'' = Some (flag_def (Bool True)) \<and>
   fst (resolveFlagStorage (Some (flag_def (Bool True))) (storageMap ex_flagg) ex_constructed)
     = Inr (StorageObject 0) \<and>
   has_set (heap ex_constructed 0) \<and>
   JSON_stringify Null \<noteq> JSON_stringify (Bool True) \<and>
   fst (set' ex_flagg (FlagName ''b'') Null ex_constructed) = Inr () \<and>
   fst (get ex_flagg ''b'' (snd (set' ex_flagg (FlagName ''b'') Null ex_constructed)))
     = Inr (Bool True) \<and>
   fst (isOverridden ex_flagg ''b'' (snd (set' ex_flagg (FlagName ''b'') Null ex_constructed)))
     = Inr False"
  by (simp add: ex_simps core_defs js_defs Let_def)

text \<open>
  The boolean coercion matters for a flag of boolean type: the flag \<open>n\<close> has no default,
  so its default is \<open>null\<close>; \<open>set('n', false)\<close> stores \<open>false\<close> and \<open>get\<close> returns it, but
  \<open>isOverridden\<close> is false, since \<open>false\<close> and \<open>null\<close> coerce alike.
\<close>

lemma ex_set_false_without_default:
  "JSON_stringify (Bool False) \<noteq> JSON_stringify Null \<and>
   getDefault ex_flagg ''n'' ex_constructed = (Inr Null, ex_constructed) \<and>
   fst (set' ex_flagg (FlagName ''n'') (Bool False) ex_constructed) = Inr () \<and>
   fst (get ex_flagg ''n'' (snd (set' ex_flagg (FlagName ''n'') (Bool False) ex_constructed)))
     = Inr (Bool False) \<and>
   fst (isOverridden ex_flagg ''n'' (snd (set' ex_flagg (FlagName ''n'') (Bool False) ex_constructed)))
     = Inr False"
  by (simp add: ex_simps core_defs js_defs Let_def)

section \<open>Flags without a definition\<close>

text \<open>
  C2. For a flag name that the registry lookup does not find (the registry has no
  definition of that name and \<open>Object.prototype\<close> has no member of that name), \<open>get\<close>
  returns \<open>null\<close> and leaves the world as it is. \<open>set\<close> is not skipped silently: with a
  value other than \<open>undefined\<close>, and for a pair of a mapping, \<open>setFlagValue\<close> hands the
  \<open>undefined\<close> definition to \<open>resolveFlagStorage\<close>, whose \<open>flagDef.storage\<close> throws a
  TypeError. No backend has been called by then: the world is unchanged.
  \<open>getResolvedFlagValue\<close> guards against the missing definition; \<open>setFlagValue\<close> does
  not.
\<close>

theorem unknown_flag_get_null_set_throws:
  assumes "definitions f flag = None" and "flag \<notin> set Object_prototype_names"
  shows "get f flag w = (Inr Null, w) \<and>
    (v \<noteq> Undefined \<longrightarrow> set' f (FlagName flag) v w = (Inl TypeError, w)) \<and>
    set' f (Flags ((flag, v) # rest)) u w = (Inl TypeError, w)"
proof -
  have "getFlagDef (definitions f) flag = None"
    using assms by (simp add: getFlagDef_None)
  then show ?thesis
    by (simp add: get_def getResolvedFlagValue_def setFlagValue_def resolveFlagStorage_def js_defs)
qed

theorem unknown_flag_get_null_set_throws_witness:
  "definitions ex_flagg ''nope'' = None \<and>
   ''nope'' \<notin> set Object_prototype_names \<and>
   get ex_flagg ''nope'' ex_constructed = (Inr Null, ex_constructed) \<and>
   Bool True \<noteq> Undefined \<and>
   set' ex_flagg (FlagName ''nope'') (Bool True) ex_constructed = (Inl TypeError, ex_constructed) \<and>
   set' ex_flagg (Flags [(''nope'', Bool True), (''a'', Bool True)]) Undefined ex_constructed
     = (Inl TypeError, ex_constructed)"
proof -
  have h: "definitions ex_flagg ''nope'' = None"
    by (simp add: ex_simps)
  have n: "''nope'' \<notin> set Object_prototype_names"
    by (simp add: Object_prototype_names_def)
  show ?thesis
    using unknown_flag_get_null_set_throws
      [OF h n, of ex_constructed "Bool True" "[(''a'', Bool True)]" Undefined] h n
    by (simp del: set'.simps)
qed

text \<open>
  A member name of \<open>Object.prototype\<close> is found by the registry lookup although the
  registry has no definition of that name: \<open>definitions['toString']\<close> is the inherited
  function, which passes for a definition without default, options and storage. So
  \<open>set('toString', true)\<close> calls \<open>set\<close> on the default storage, and \<open>get('toString')\<close>,
  which was \<open>null\<close>, returns \<open>true\<close> afterwards.
\<close>

lemma ex_inherited_name_is_written:
  "definitions ex_flagg ''toString'' = None \<and>
   fst (get ex_flagg ''toString'' ex_constructed) = Inr Null \<and>
   fst (set' ex_flagg (FlagName ''toString'') (Bool True) ex_constructed) = Inr () \<and>
   calls (snd (set' ex_flagg (FlagName ''toString'') (Bool True) ex_constructed)) =
     [CallAll 1, CallSet 0 ''toString'' (Bool True)] \<and>
   fst (get ex_flagg ''toString''
     (snd (set' ex_flagg (FlagName ''toString'') (Bool True) ex_constructed))) = Inr (Bool True)"
  by (simp add: ex_simps core_defs js_defs Let_def)

text \<open>
  C9, as amended. For a flag name that the registry lookup does not find (no definition
  of that name in the registry, and not a member name of \<open>Object.prototype\<close>),
  \<open>getDefault\<close> and \<open>isOverridden\<close> read a property of the \<open>undefined\<close> definition and
  throw a TypeError; nothing is logged and no backend is called. For a member name of
  \<open>Object.prototype\<close> without a definition in the registry, the lookup yields the
  inherited member: \<open>getDefault\<close> returns \<open>null\<close>, and \<open>isOverridden\<close> does what \<open>isOn\<close>
  does.
\<close>

theorem unknown_flag_getDefault_isOverridden_throw:
  "(definitions f flag = None \<longrightarrow> flag \<notin> set Object_prototype_names \<longrightarrow>
      getDefault f flag w = (Inl TypeError, w) \<and> isOverridden f flag w = (Inl TypeError, w)) \<and>
   (definitions f flag = None \<longrightarrow> flag \<in> set Object_prototype_names \<longrightarrow>
      getDefault f flag w = (Inr Null, w) \<and> isOverridden f flag w = isOn f flag w)"
proof (intro conjI impI)
  assume "definitions f flag = None" and "flag \<notin> set Object_prototype_names"
  then have n: "getFlagDef (definitions f) flag = None"
    by (simp add: getFlagDef_None)
  show "getDefault f flag w = (Inl TypeError, w)"
    by (simp add: getDefault_def n getFlagDefaultValue_def liftJ_def)
  show "isOverridden f flag w = (Inl TypeError, w)"
    by (simp add: isOverridden_def n getFlagType_def js_defs)
next
  assume "definitions f flag = None" and "flag \<in> set Object_prototype_names"
  then have i: "getFlagDef (definitions f) flag = Some inherited_member"
    by (simp add: getFlagDef_def)
  show "getDefault f flag w = (Inr Null, w)"
    by (simp add: getDefault_def i getFlagDefaultValue_def inherited_member_def liftJ_def)
  have t: "liftJ (getFlagType (Some inherited_member)) = returnJ TBoolean"
    by (simp add: getFlagType_def inherited_member_def liftJ_def returnJ_def)
  have gd: "getDefault f flag = returnJ Null"
    by (simp add: getDefault_def i getFlagDefaultValue_def inherited_member_def liftJ_def
        returnJ_def)
  have rb: "bindJ (returnJ x) g = g x" for x :: 'a and g :: "'a \<Rightarrow> 'b js"
    by (simp add: bindJ_def returnJ_def)
  have "isOverridden f flag = bindJ (isOn f flag) (\<lambda>a. returnJ (a \<noteq> False))"
    by (simp add: isOverridden_def i t gd rb)
  also have "\<dots> = bindJ (isOn f flag) returnJ"
    by simp
  finally show "isOverridden f flag w = isOn f flag w"
    by (simp add: bindJ_returnJ)
qed

theorem unknown_flag_getDefault_isOverridden_throw_witness:
  "definitions ex_flagg ''nope'' = None \<and>
   ''nope'' \<notin> set Object_prototype_names \<and>
   getDefault ex_flagg ''nope'' ex_constructed = (Inl TypeError, ex_constructed) \<and>
   isOverridden ex_flagg ''nope'' ex_constructed = (Inl TypeError, ex_constructed) \<and>
   definitions ex_flagg ''valueOf'' = None \<and>
   ''valueOf'' \<in> set Object_prototype_names \<and>
   getDefault ex_flagg ''valueOf'' ex_constructed = (Inr Null, ex_constructed) \<and>
   isOverridden ex_flagg ''valueOf'' ex_constructed = isOn ex_flagg ''valueOf'' ex_constructed"
proof -
  have h: "definitions ex_flagg ''nope'' = None"
    by (simp add: ex_simps)
  have n: "''nope'' \<notin> set Object_prototype_names"
    by (simp add: Object_prototype_names_def)
  have h': "definitions ex_flagg ''valueOf'' = None"
    by (simp add: ex_simps)
  have n': "''valueOf'' \<in> set Object_prototype_names"
    by (simp add: Object_prototype_names_def)
  have a: "getDefault ex_flagg ''nope'' ex_constructed = (Inl TypeError, ex_constructed) \<and>
      isOverridden ex_flagg ''nope'' ex_constructed = (Inl TypeError, ex_constructed)"
    using unknown_flag_getDefault_isOverridden_throw [of ex_flagg "''nope''" ex_constructed] h n
    by blast
  have b: "getDefault ex_flagg ''valueOf'' ex_constructed = (Inr Null, ex_constructed) \<and>
      isOverridden ex_flagg ''valueOf'' ex_constructed = isOn ex_flagg ''valueOf'' ex_constructed"
    using unknown_flag_getDefault_isOverridden_throw [of ex_flagg "''valueOf''" ex_constructed] h' n'
    by blast
  from h n a h' n' b show ?thesis by blast
qed

text \<open>
  C9 as stated fails for the names that \<open>Object.prototype\<close> has: the registry has no
  definition of \<open>toString\<close>, and yet \<open>getDefault('toString')\<close> returns \<open>null\<close> and
  \<open>isOverridden('toString')\<close> returns \<open>false\<close>; neither throws.
\<close>

theorem inherited_name_does_not_throw_counterexample:
  "definitions ex_flagg ''toString'' = None \<and>
   getDefault ex_flagg ''toString'' ex_constructed = (Inr Null, ex_constructed) \<and>
   fst (isOverridden ex_flagg ''toString'' ex_constructed) = Inr False"
  by (simp add: ex_simps core_defs js_defs Let_def)

section \<open>Setting \<open>undefined\<close>\<close>

text \<open>
  C10. The form \<open>set(flagName, undefined)\<close> does nothing, whatever the flag name: it
  returns and the world (every storage's contents, the backend calls, the warnings) is
  the same. In a mapping, a pair with the value \<open>undefined\<close> goes through \<open>setFlagValue\<close>
  like any other.
\<close>

theorem set_single_undefined_noop:
  "set' f (FlagName flag) Undefined w = (Inr (), w) \<and>
   set' f (Flags [(flag, Undefined)]) u w =
     setFlagValue (definitions f) flag Undefined (storageMap f) w"
proof -
  have "bindJ m (\<lambda>_. returnJ ()) w = m w" for m :: "unit js"
    by (cases "m w") (auto simp: js_defs split: sum.splits)
  then show ?thesis by (simp add: returnJ_def)
qed

text \<open>In the configuration, that pair of a mapping calls the backend's \<open>set\<close> with
  \<open>undefined\<close>.\<close>

lemma bulk_undefined_is_written:
  "set' ex_flagg (Flags [(''a'', Undefined)]) Undefined ex_constructed =
     (Inr (), ex_constructed
        \<lparr>heap := (heap ex_constructed)(0 := mem_storage\<lparr>items := [(''a'', Undefined)]\<rparr>),
         calls := [CallAll 1, CallSet 0 ''a'' Undefined]\<rparr>)"
  by (simp add: ex_simps core_defs js_defs Let_def)

section \<open>Writing a value equal to the default\<close>

text \<open>
  C3. Let a flag have a definition whose storage resolves to a storage object that has
  \<open>remove\<close>, and let \<open>v\<close> serialize like the flag's default. Then \<open>set(flag, v)\<close> returns,
  the one backend call it makes is \<open>remove(flag)\<close> on that storage, and the storage's own
  \<open>get(flag)\<close> is \<open>undefined\<close> afterwards.
\<close>

theorem set_default_removes:
  assumes "definitions f flag = Some d"
    and "fst (resolveFlagStorage (Some d) (storageMap f) w) = Inr (StorageObject r)"
    and "has_remove (heap w r)"
    and "getFlagDefaultValue (Some d) = Inr dv"
    and "JSON_stringify v = JSON_stringify dv"
  shows "fst (set' f (FlagName flag) v w) = Inr () \<and>
    calls (snd (set' f (FlagName flag) v w)) = calls w @ [CallRemove r flag] \<and>
    storage_get (heap (snd (set' f (FlagName flag) v w)) r) flag = Undefined"
proof -
  have "dv \<noteq> Undefined"
    using assms(4) by (auto simp: getFlagDefaultValue_def split: if_splits)
  then have "JSON_stringify dv \<noteq> None"
    by (cases dv) simp_all
  then have "v \<noteq> Undefined"
    using assms(5) by auto
  then have s: "set' f (FlagName flag) v = setFlagValue (definitions f) flag v (storageMap f)"
    by simp
  show ?thesis
    unfolding s
    using setFlagValue_equals [where defs = "definitions f" and flag = flag, OF assms]
    by (simp add: storage_get_remove)
qed

theorem set_default_removes_witness:
  "definitions ex_flagg ''a'' = Some (flag_def (Bool False)) \<and>
   fst (resolveFlagStorage (Some (flag_def (Bool False))) (storageMap ex_flagg)
      (snd (set' ex_flagg (FlagName ''a'') (Bool True) ex_constructed))) = Inr (StorageObject 0) \<and>
   has_remove (heap (snd (set' ex_flagg (FlagName ''a'') (Bool True) ex_constructed)) 0) \<and>
   getFlagDefaultValue (Some (flag_def (Bool False))) = Inr (Bool False) \<and>
   storage_get (heap (snd (set' ex_flagg (FlagName ''a'') (Bool True) ex_constructed)) 0) ''a''
     = Bool True \<and>
   fst (set' ex_flagg (FlagName ''a'') (Bool False)
      (snd (set' ex_flagg (FlagName ''a'') (Bool True) ex_constructed))) = Inr () \<and>
   calls (snd (set' ex_flagg (FlagName ''a'') (Bool False)
      (snd (set' ex_flagg (FlagName ''a'') (Bool True) ex_constructed))))
     = [CallAll 1, CallSet 0 ''a'' (Bool True), CallRemove 0 ''a''] \<and>
   storage_get (heap (snd (set' ex_flagg (FlagName ''a'') (Bool False)
      (snd (set' ex_flagg (FlagName ''a'') (Bool True) ex_constructed)))) 0) ''a'' = Undefined"
proof -
  let ?w = "snd (set' ex_flagg (FlagName ''a'') (Bool True) ex_constructed)"
  have w: "?w = ex_constructed
        \<lparr>heap := (heap ex_constructed)(0 := mem_storage\<lparr>items := [(''a'', Bool True)]\<rparr>),
         calls := [CallAll 1, CallSet 0 ''a'' (Bool True)]\<rparr>"
    by (simp add: ex_simps core_defs js_defs Let_def)
  have h1: "definitions ex_flagg ''a'' = Some (flag_def (Bool False))"
    by (simp add: ex_simps)
  have h2: "fst (resolveFlagStorage (Some (flag_def (Bool False))) (storageMap ex_flagg) ?w)
      = Inr (StorageObject 0)"
    by (simp add: ex_simps core_defs js_defs)
  have h3: "has_remove (heap ?w 0)"
    unfolding w by (simp add: ex_simps)
  have h4: "getFlagDefaultValue (Some (flag_def (Bool False))) = Inr (Bool False)"
    by (simp add: getFlagDefaultValue_def flag_def_def)
  have h5: "JSON_stringify (Bool False) = JSON_stringify (Bool False)"
    by simp
  have g: "storage_get (heap ?w 0) ''a'' = Bool True"
    unfolding w by (simp add: ex_simps storage_get_def)
  have c: "calls ?w = [CallAll 1, CallSet 0 ''a'' (Bool True)]"
    unfolding w by simp
  show ?thesis
    using set_default_removes [OF h1 h2 h3 h4 h5] h1 h2 h3 h4 g c
    by (simp del: set'.simps)
qed

section \<open>Setting a mapping\<close>

text \<open>
  C4, as amended. \<open>set\<close> of a mapping applies its pairs one at a time in the order of
  the mapping: the first pair goes through \<open>setFlagValue\<close>, then the rest. When the pairs
  \<open>xs\<close> have been applied and applying the next pair throws, \<open>set\<close> throws that
  exception: the storages and the backend calls are as they were after \<open>xs\<close>, so nothing
  is rolled back, and the pairs \<open>ys\<close> after the failing one are not applied.
\<close>

theorem bulk_set_stops_at_exception:
  "set' f (Flags ((k, v) # rest)) u =
     bindJ (setFlagValue (definitions f) k v (storageMap f)) (\<lambda>_. set' f (Flags rest) u) \<and>
   (fst (set' f (Flags xs) u w) = Inr () \<longrightarrow>
    fst (setFlagValue (definitions f) k v (storageMap f) (snd (set' f (Flags xs) u w))) = Inl e \<longrightarrow>
      fst (set' f (Flags (xs @ (k, v) # ys)) u w) = Inl e \<and>
      heap (snd (set' f (Flags (xs @ (k, v) # ys)) u w)) = heap (snd (set' f (Flags xs) u w)) \<and>
      calls (snd (set' f (Flags (xs @ (k, v) # ys)) u w)) = calls (snd (set' f (Flags xs) u w)))"
proof (intro conjI impI)
  show "set' f (Flags ((k, v) # rest)) u =
     bindJ (setFlagValue (definitions f) k v (storageMap f)) (\<lambda>_. set' f (Flags rest) u)"
    by simp
next
  let ?g = "\<lambda>(flagName, v'). setFlagValue (definitions f) flagName v' (storageMap f)"
  let ?w1 = "snd (forEach ?g xs w)"
  assume "fst (set' f (Flags xs) u w) = Inr ()"
    and "fst (setFlagValue (definitions f) k v (storageMap f) (snd (set' f (Flags xs) u w))) = Inl e"
  then have ok: "fst (forEach ?g xs w) = Inr ()"
    and bad: "fst (setFlagValue (definitions f) k v (storageMap f) ?w1) = Inl e"
    by simp_all
  have "forEach ?g (xs @ (k, v) # ys) w = forEach ?g ((k, v) # ys) ?w1"
    using ok by (simp only: forEach_append bindJ_fst_Inr)
  also have "\<dots> = (Inl e, snd (setFlagValue (definitions f) k v (storageMap f) ?w1))"
    using bad by (simp add: bindJ_fst_Inl)
  finally have r: "set' f (Flags (xs @ (k, v) # ys)) u w =
      (Inl e, snd (setFlagValue (definitions f) k v (storageMap f) ?w1))"
    by simp
  have w1: "snd (set' f (Flags xs) u w) = ?w1"
    by simp
  show "fst (set' f (Flags (xs @ (k, v) # ys)) u w) = Inl e"
    by (simp only: r fst_conv)
  show "heap (snd (set' f (Flags (xs @ (k, v) # ys)) u w)) = heap (snd (set' f (Flags xs) u w))"
    using setFlagValue_throws(1) [OF bad] by (simp only: r w1 snd_conv)
  show "calls (snd (set' f (Flags (xs @ (k, v) # ys)) u w)) = calls (snd (set' f (Flags xs) u w))"
    using setFlagValue_throws(2) [OF bad] by (simp only: r w1 snd_conv)
qed

text \<open>In the configuration: \<open>{a: true, nope: true, b: false}\<close> writes \<open>a\<close>, throws at
  \<open>nope\<close>, which has no definition, and never reaches \<open>b\<close>.\<close>

theorem bulk_set_stops_at_exception_witness:
  "fst (set' ex_flagg (Flags [(''a'', Bool True)]) Undefined ex_constructed) = Inr () \<and>
   fst (setFlagValue (definitions ex_flagg) ''nope'' (Bool True) (storageMap ex_flagg)
      (snd (set' ex_flagg (Flags [(''a'', Bool True)]) Undefined ex_constructed))) = Inl TypeError \<and>
   fst (set' ex_flagg (Flags [(''a'', Bool True), (''nope'', Bool True), (''b'', Bool False)])
      Undefined ex_constructed) = Inl TypeError \<and>
   calls (snd (set' ex_flagg (Flags [(''a'', Bool True), (''nope'', Bool True), (''b'', Bool False)])
      Undefined ex_constructed)) = [CallAll 1, CallSet 0 ''a'' (Bool True)] \<and>
   storage_get (heap (snd (set' ex_flagg
      (Flags [(''a'', Bool True), (''nope'', Bool True), (''b'', Bool False)])
      Undefined ex_constructed)) 0) ''a'' = Bool True \<and>
   storage_get (heap (snd (set' ex_flagg
      (Flags [(''a'', Bool True), (''nope'', Bool True), (''b'', Bool False)])
      Undefined ex_constructed)) 0) ''b'' = Undefined"
proof -
  let ?w1 = "snd (set' ex_flagg (Flags [(''a'', Bool True)]) Undefined ex_constructed)"
  have h1: "fst (set' ex_flagg (Flags [(''a'', Bool True)]) Undefined ex_constructed) = Inr ()"
    by (simp only: ex_set_a fst_conv)
  have h2: "fst (setFlagValue (definitions ex_flagg) ''nope'' (Bool True) (storageMap ex_flagg) ?w1)
      = Inl TypeError"
    by (simp add: ex_simps core_defs js_defs)
  have c: "calls ?w1 = [CallAll 1, CallSet 0 ''a'' (Bool True)]"
    by (simp only: ex_set_a snd_conv) simp
  have a: "storage_get (heap ?w1 0) ''a'' = Bool True"
    by (simp only: ex_set_a snd_conv) (simp add: ex_simps storage_get_def)
  have b: "storage_get (heap ?w1 0) ''b'' = Undefined"
    by (simp only: ex_set_a snd_conv) (simp add: ex_simps storage_get_def)
  have "fst (set' ex_flagg (Flags ([(''a'', Bool True)] @ (''nope'', Bool True) # [(''b'', Bool False)]))
        Undefined ex_constructed) = Inl TypeError \<and>
      heap (snd (set' ex_flagg (Flags ([(''a'', Bool True)] @ (''nope'', Bool True) # [(''b'', Bool False)]))
        Undefined ex_constructed)) = heap ?w1 \<and>
      calls (snd (set' ex_flagg (Flags ([(''a'', Bool True)] @ (''nope'', Bool True) # [(''b'', Bool False)]))
        Undefined ex_constructed)) = calls ?w1"
    using bulk_set_stops_at_exception
      [where f = ex_flagg and k = "''nope''" and v = "Bool True" and u = Undefined
        and xs = "[(''a'', Bool True)]" and w = ex_constructed and e = TypeError
        and ys = "[(''b'', Bool False)]", THEN conjunct2] h1 h2
    by blast
  then show ?thesis
    using h1 h2 a b c by (simp del: set'.simps)
qed

text \<open>
  C4 as stated fails: a failure in applying one pair does prevent the following pairs
  from being applied. \<open>set({nope: true, a: true})\<close> throws at \<open>nope\<close> and leaves the world
  untouched, so \<open>get('a')\<close> is still the default \<open>false\<close>, whereas \<open>set({a: true})\<close> alone
  makes it \<open>true\<close>.
\<close>

theorem bulk_set_continues_counterexample:
  "fst (set' ex_flagg (Flags [(''nope'', Bool True), (''a'', Bool True)]) Undefined ex_constructed)
     = Inl TypeError \<and>
   snd (set' ex_flagg (Flags [(''nope'', Bool True), (''a'', Bool True)]) Undefined ex_constructed)
     = ex_constructed \<and>
   fst (get ex_flagg ''a''
      (snd (set' ex_flagg (Flags [(''nope'', Bool True), (''a'', Bool True)]) Undefined ex_constructed)))
     = Inr (Bool False) \<and>
   fst (get ex_flagg ''a''
      (snd (set' ex_flagg (Flags [(''a'', Bool True)]) Undefined ex_constructed)))
     = Inr (Bool True)"
  by (simp add: ex_simps core_defs js_defs Let_def)

section \<open>What \<open>get\<close> returns\<close>

text \<open>
  C5, as amended. \<open>get\<close> returns \<open>null\<close> only when the registry has no definition of
  the flag, or has one whose default is absent or \<open>null\<close>. For a flag with a definition
  whose storage resolves to a storage object, \<open>get\<close> returns the stored value when that
  is neither \<open>null\<close> nor \<open>undefined\<close>, and otherwise the default, which is \<open>null\<close> when
  the definition has no default. So \<open>get\<close> returns \<open>null\<close> for a defined flag exactly
  when nothing (or \<open>null\<close>) is stored and the default is absent or \<open>null\<close>.
\<close>

theorem get_null_cases:
  "(fst (get f flag w) = Inr Null \<longrightarrow>
      definitions f flag = None \<or>
      (\<exists>d'. definitions f flag = Some d' \<and>
         (default_value d' = Undefined \<or> default_value d' = Null))) \<and>
   (definitions f flag = Some d \<longrightarrow>
    fst (resolveFlagStorage (Some d) (storageMap f) w) = Inr (StorageObject r) \<longrightarrow>
      fst (get f flag w) =
        Inr (if storage_get (heap w r) flag = Undefined \<or> storage_get (heap w r) flag = Null
             then (if default_value d = Undefined then Null else default_value d)
             else storage_get (heap w r) flag) \<and>
      (fst (get f flag w) = Inr Null \<longleftrightarrow>
        (storage_get (heap w r) flag = Undefined \<or> storage_get (heap w r) flag = Null) \<and>
        (default_value d = Undefined \<or> default_value d = Null)))"
proof (intro conjI impI)
  assume n: "fst (get f flag w) = Inr Null"
  show "definitions f flag = None \<or>
      (\<exists>d'. definitions f flag = Some d' \<and>
         (default_value d' = Undefined \<or> default_value d' = Null))"
  proof (cases "definitions f flag")
    case None
    then show ?thesis by simp
  next
    case (Some d')
    obtain a w' where v: "getFlagValue d' flag (storageMap f) w = (a, w')"
      by (cases "getFlagValue d' flag (storageMap f) w")
    have "default_value d' = Undefined \<or> default_value d' = Null"
    proof (cases a)
      case (Inl e)
      with n Some v show ?thesis
        by (simp add: get_def getResolvedFlagValue_def getFlagDef_own getFlagDefaultValue_def
            js_defs)
    next
      case (Inr x)
      with n Some v show ?thesis
        by (simp add: get_def getResolvedFlagValue_def getFlagDef_own getFlagDefaultValue_def
            js_defs split: if_splits)
    qed
    with Some show ?thesis by simp
  qed
next
  assume d: "definitions f flag = Some d"
    and r: "fst (resolveFlagStorage (Some d) (storageMap f) w) = Inr (StorageObject r)"
  have dv: "getFlagDefaultValue (Some d) =
      Inr (if default_value d = Undefined then Null else default_value d)"
    by (simp add: getFlagDefaultValue_def)
  show g: "fst (get f flag w) =
      Inr (if storage_get (heap w r) flag = Undefined \<or> storage_get (heap w r) flag = Null
           then (if default_value d = Undefined then Null else default_value d)
           else storage_get (heap w r) flag)"
    by (rule get_defined [OF d r dv])
  show "fst (get f flag w) = Inr Null \<longleftrightarrow>
      (storage_get (heap w r) flag = Undefined \<or> storage_get (heap w r) flag = Null) \<and>
      (default_value d = Undefined \<or> default_value d = Null)"
    unfolding g by auto
qed

theorem get_null_cases_witness:
  "fst (get ex_flagg ''n'' ex_constructed) = Inr Null \<and>
   (\<exists>d'. definitions ex_flagg ''n'' = Some d' \<and>
      (default_value d' = Undefined \<or> default_value d' = Null)) \<and>
   definitions ex_flagg ''c'' = Some ((flag_def (Str ''red''))\<lparr>options := Some [''red'', ''green'']\<rparr>) \<and>
   fst (resolveFlagStorage (Some ((flag_def (Str ''red''))\<lparr>options := Some [''red'', ''green'']\<rparr>))
      (storageMap ex_flagg) ex_constructed) = Inr (StorageObject 0) \<and>
   storage_get (heap ex_constructed 0) ''c'' = Undefined \<and>
   fst (get ex_flagg ''c'' ex_constructed) = Inr (Str ''red'')"
proof -
  let ?d = "(flag_def (Str ''red''))\<lparr>options := Some [''red'', ''green'']\<rparr>"
  have h0: "fst (get ex_flagg ''n'' ex_constructed) = Inr Null"
    by (simp add: ex_simps core_defs js_defs)
  have n0: "definitions ex_flagg ''n'' \<noteq> None"
    by (simp add: ex_simps)
  have h1: "definitions ex_flagg ''c'' = Some ?d"
    by (simp add: ex_simps)
  have h2: "fst (resolveFlagStorage (Some ?d) (storageMap ex_flagg) ex_constructed)
      = Inr (StorageObject 0)"
    by (simp add: ex_simps core_defs js_defs)
  have s: "storage_get (heap ex_constructed 0) ''c'' = Undefined"
    by (simp add: ex_simps storage_get_def)
  have a: "\<exists>d'. definitions ex_flagg ''n'' = Some d' \<and>
      (default_value d' = Undefined \<or> default_value d' = Null)"
    using get_null_cases [of ex_flagg "''n''" ex_constructed, THEN conjunct1] h0 n0 by blast
  have b: "fst (get ex_flagg ''c'' ex_constructed) = Inr (Str ''red'')"
    using get_null_cases [of ex_flagg "''c''" ex_constructed ?d 0] h1 h2 s
    by (simp add: flag_def_def)
  from h0 a h1 h2 s b show ?thesis by blast
qed

text \<open>
  C5 as stated fails: the flag \<open>n\<close> has a definition, without a default, and \<open>get('n')\<close>
  returns \<open>null\<close>.
\<close>

theorem get_null_with_definition_counterexample:
  "definitions ex_flagg ''n'' = Some (flag_def Undefined) \<and>
   fst (get ex_flagg ''n'' ex_constructed) = Inr Null"
  by (simp add: ex_simps core_defs js_defs)

section \<open>Override detection\<close>

text \<open>
  C6. For a flag with a definition, the flag type is select when the definition has
  options, else string when the default is a string, else boolean. For the boolean type
  \<open>isOverridden\<close> returns whether what \<open>isOn\<close> returns differs from the boolean
  coercion of what \<open>getDefault\<close> returns; for the other two types it returns whether what
  \<open>get\<close> returns differs from what \<open>getDefault\<close> returns.
\<close>

theorem isOverridden_by_type:
  assumes "definitions f flag = Some d"
  shows "getFlagType (Some d) =
      Inr (if options d \<noteq> None then TSelect
           else if is_string (default_value d) then TString else TBoolean) \<and>
    (getFlagType (Some d) = Inr TBoolean \<longrightarrow>
      fst (isOn f flag w) = Inr a \<longrightarrow> fst (getDefault f flag (snd (isOn f flag w))) = Inr b \<longrightarrow>
        fst (isOverridden f flag w) = Inr (a \<noteq> truthy b)) \<and>
    (getFlagType (Some d) \<noteq> Inr TBoolean \<longrightarrow>
      fst (get f flag w) = Inr g \<longrightarrow> fst (getDefault f flag (snd (get f flag w))) = Inr c \<longrightarrow>
        fst (isOverridden f flag w) = Inr (g \<noteq> c))"
proof (intro conjI impI)
  show "getFlagType (Some d) =
      Inr (if options d \<noteq> None then TSelect
           else if is_string (default_value d) then TString else TBoolean)"
    by (simp add: getFlagType_def)
next
  assume t: "getFlagType (Some d) = Inr TBoolean"
    and on: "fst (isOn f flag w) = Inr a"
    and df: "fst (getDefault f flag (snd (isOn f flag w))) = Inr b"
  have dv: "getFlagDefaultValue (Some d) = Inr b"
    using df assms by (simp add: getDefault_def getFlagDef_def liftJ_def)
  obtain x w' where gx: "get f flag w = (x, w')"
    by (cases "get f flag w")
  with on obtain g' where g': "x = Inr g'" and a: "a = truthy g'"
    by (cases x) (auto simp: isOn_def js_defs)
  have "fst (get f flag w) = Inr g'"
    using gx g' by simp
  from isOverridden_value [OF assms this dv] t a
  show "fst (isOverridden f flag w) = Inr (a \<noteq> truthy b)"
    by simp
next
  assume t: "getFlagType (Some d) \<noteq> Inr TBoolean"
    and gt: "fst (get f flag w) = Inr g"
    and df: "fst (getDefault f flag (snd (get f flag w))) = Inr c"
  have dv: "getFlagDefaultValue (Some d) = Inr c"
    using df assms by (simp add: getDefault_def getFlagDef_def liftJ_def)
  from isOverridden_value [OF assms gt dv] t
  show "fst (isOverridden f flag w) = Inr (g \<noteq> c)"
    by simp
qed

text \<open>In the configuration, after \<open>set({a: true, c: 'green'})\<close>: \<open>a\<close> is of boolean
  type and \<open>c\<close> of select type, and both are overridden.\<close>

lemma ex_set_a_c:
  "set' ex_flagg (Flags [(''a'', Bool True), (''c'', Str ''green'')]) Undefined ex_constructed =
     (Inr (), ex_constructed
        \<lparr>heap := (heap ex_constructed)
           (0 := mem_storage\<lparr>items := [(''a'', Bool True), (''c'', Str ''green'')]\<rparr>),
         calls := [CallAll 1, CallSet 0 ''a'' (Bool True), CallSet 0 ''c'' (Str ''green'')]\<rparr>)"
  by (simp add: ex_simps core_defs js_defs json_quote_def json_escape_def Let_def)

theorem isOverridden_by_type_witness:
  "definitions ex_flagg ''a'' = Some (flag_def (Bool False)) \<and>
   getFlagType (Some (flag_def (Bool False))) = Inr TBoolean \<and>
   fst (isOn ex_flagg ''a''
     (snd (set' ex_flagg (Flags [(''a'', Bool True), (''c'', Str ''green'')]) Undefined ex_constructed)))
     = Inr True \<and>
   fst (getDefault ex_flagg ''a'' (snd (isOn ex_flagg ''a''
     (snd (set' ex_flagg (Flags [(''a'', Bool True), (''c'', Str ''green'')]) Undefined ex_constructed)))))
     = Inr (Bool False) \<and>
   fst (isOverridden ex_flagg ''a''
     (snd (set' ex_flagg (Flags [(''a'', Bool True), (''c'', Str ''green'')]) Undefined ex_constructed)))
     = Inr True \<and>
   definitions ex_flagg ''c'' = Some ((flag_def (Str ''red''))\<lparr>options := Some [''red'', ''green'']\<rparr>) \<and>
   getFlagType (Some ((flag_def (Str ''red''))\<lparr>options := Some [''red'', ''green'']\<rparr>)) = Inr TSelect \<and>
   fst (get ex_flagg ''c''
     (snd (set' ex_flagg (Flags [(''a'', Bool True), (''c'', Str ''green'')]) Undefined ex_constructed)))
     = Inr (Str ''green'') \<and>
   fst (getDefault ex_flagg ''c'' (snd (get ex_flagg ''c''
     (snd (set' ex_flagg (Flags [(''a'', Bool True), (''c'', Str ''green'')]) Undefined ex_constructed)))))
     = Inr (Str ''red'') \<and>
   fst (isOverridden ex_flagg ''c''
     (snd (set' ex_flagg (Flags [(''a'', Bool True), (''c'', Str ''green'')]) Undefined ex_constructed)))
     = Inr True"
proof -
  let ?w = "snd (set' ex_flagg (Flags [(''a'', Bool True), (''c'', Str ''green'')]) Undefined
    ex_constructed)"
  let ?da = "flag_def (Bool False)"
  let ?dc = "(flag_def (Str ''red''))\<lparr>options := Some [''red'', ''green'']\<rparr>"
  have a1: "definitions ex_flagg ''a'' = Some ?da"
    by (simp add: ex_simps)
  have a2: "getFlagType (Some ?da) = Inr TBoolean"
    by (simp add: getFlagType_def flag_def_def)
  have a3: "fst (isOn ex_flagg ''a'' ?w) = Inr True"
    by (simp only: ex_set_a_c snd_conv) (simp add: ex_simps core_defs js_defs)
  have a4: "fst (getDefault ex_flagg ''a'' (snd (isOn ex_flagg ''a'' ?w))) = Inr (Bool False)"
    by (simp add: ex_simps core_defs js_defs)
  have c1: "definitions ex_flagg ''c'' = Some ?dc"
    by (simp add: ex_simps)
  have c2: "getFlagType (Some ?dc) = Inr TSelect"
    by (simp add: getFlagType_def flag_def_def)
  have c3: "fst (get ex_flagg ''c'' ?w) = Inr (Str ''green'')"
    by (simp only: ex_set_a_c snd_conv) (simp add: ex_simps core_defs js_defs)
  have c4: "fst (getDefault ex_flagg ''c'' (snd (get ex_flagg ''c'' ?w))) = Inr (Str ''red'')"
    by (simp add: ex_simps core_defs js_defs)
  have a5: "fst (isOverridden ex_flagg ''a'' ?w) = Inr True"
    using isOverridden_by_type [OF a1, of ?w True "Bool False"] a2 a3 a4 by simp
  have c5: "fst (isOverridden ex_flagg ''c'' ?w) = Inr True"
    using isOverridden_by_type [OF c1, of ?w _ _ "Str ''green''" "Str ''red''"] c2 c3 c4 by simp
  from a1 a2 a3 a4 a5 c1 c2 c3 c4 c5 show ?thesis by blast
qed

section \<open>The storage map and storage resolution\<close>

text \<open>
  C7, as amended. Let the supplied storages have pairwise distinct names, let none but
  possibly the first be named \<open>_default\<close>, and let none be named \<open>__proto__\<close>. Then
  indexing the storage map with a supplied storage's name yields that storage, and
  indexing it with \<open>_default\<close> yields the first storage of the sequence (or the single
  object). For a definition whose storage field names no entry of the map, that is,
  indexing with it yields nothing truthy, resolution returns the \<open>_default\<close> entry and
  warns. For a definition without a storage field, resolution indexes with the key
  \<open>undefined\<close> and, when that yields nothing truthy, returns the \<open>_default\<close> entry
  without a warning. In the map built from those storages, the names that yield nothing
  are the names other than \<open>_default\<close> that no supplied storage bears and that
  \<open>Object.prototype\<close> has no member of.
\<close>

theorem storage_map_default_fallback:
  assumes "distinct (map (\<lambda>st. name (h st)) (makeArray inp))"
    and "DEFAULT_STORAGE_NAME \<notin> (\<lambda>st. name (h st)) ` set (tl (makeArray inp))"
    and "''__proto__'' \<notin> (\<lambda>st. name (h st)) ` set (makeArray inp)"
  shows "(\<forall>st \<in> set (makeArray inp).
       storage_map_get h (makeStorageMap h inp) (name (h st)) = StorageObject st) \<and>
    (\<forall>st rest. makeArray inp = st # rest \<longrightarrow>
       storage_map_get h (makeStorageMap h inp) DEFAULT_STORAGE_NAME = StorageObject st) \<and>
    (storage d = Some n \<longrightarrow> \<not> truthy_member (storage_map_get (heap w) m n) \<longrightarrow>
       resolveFlagStorage (Some d) m w =
         (Inr (storage_map_get (heap w) m DEFAULT_STORAGE_NAME),
          w\<lparr>warnings := warnings w @ [storage_not_available n]\<rparr>)) \<and>
    (storage d = None \<longrightarrow> \<not> truthy_member (storage_map_get (heap w) m ''undefined'') \<longrightarrow>
       resolveFlagStorage (Some d) m w =
         (Inr (storage_map_get (heap w) m DEFAULT_STORAGE_NAME), w)) \<and>
    (k \<notin> (\<lambda>st. name (h st)) ` set (makeArray inp) \<longrightarrow> k \<noteq> DEFAULT_STORAGE_NAME \<longrightarrow>
     k \<notin> set Object_prototype_names \<longrightarrow>
       storage_map_get h (makeStorageMap h inp) k = NoMember)"
proof (intro conjI ballI allI impI)
  let ?arr = "makeArray inp"
  let ?first = "case ?arr of [] \<Rightarrow> None | st # _ \<Rightarrow> Some st"
  let ?own = "foldl (\<lambda>acc st. acc(name (h st) \<mapsto> st))
      ((\<lambda>k. None)(DEFAULT_STORAGE_NAME := ?first)) ?arr"
  have m: "makeStorageMap h inp = \<lparr>own = ?own, proto = None\<rparr>"
    using assms(3) by (simp add: makeStorageMap_def Let_def foldl_assign_own)
  {
    fix st assume "st \<in> set ?arr"
    with assms(1) have "?own (name (h st)) = Some st"
      by (rule foldl_bind_name)
    then show "storage_map_get h (makeStorageMap h inp) (name (h st)) = StorageObject st"
      by (simp add: m storage_map_get_def)
  }
  {
    fix st rest assume arr: "?arr = st # rest"
    have "?own DEFAULT_STORAGE_NAME = Some st"
    proof (cases "name (h st) = DEFAULT_STORAGE_NAME")
      case True
      have "st \<in> set ?arr" using arr by simp
      with assms(1) have "?own (name (h st)) = Some st"
        by (rule foldl_bind_name)
      with True show ?thesis by simp
    next
      case False
      with assms(2) arr have "DEFAULT_STORAGE_NAME \<notin> (\<lambda>st. name (h st)) ` set ?arr"
        by auto
      then have "?own DEFAULT_STORAGE_NAME = ((\<lambda>k. None)(DEFAULT_STORAGE_NAME := ?first))
          DEFAULT_STORAGE_NAME"
        by (rule foldl_bind_other)
      then show ?thesis using arr by simp
    qed
    then show "storage_map_get h (makeStorageMap h inp) DEFAULT_STORAGE_NAME = StorageObject st"
      by (simp add: m storage_map_get_def)
  }
  {
    assume "storage d = Some n" and "\<not> truthy_member (storage_map_get (heap w) m n)"
    then show "resolveFlagStorage (Some d) m w =
        (Inr (storage_map_get (heap w) m DEFAULT_STORAGE_NAME),
         w\<lparr>warnings := warnings w @ [storage_not_available n]\<rparr>)"
      by (simp add: resolveFlagStorage_def property_key_def js_defs Let_def)
  }
  {
    assume "storage d = None" and "\<not> truthy_member (storage_map_get (heap w) m ''undefined'')"
    then show "resolveFlagStorage (Some d) m w =
        (Inr (storage_map_get (heap w) m DEFAULT_STORAGE_NAME), w)"
      by (simp add: resolveFlagStorage_def property_key_def js_defs Let_def)
  }
  {
    assume k: "k \<notin> (\<lambda>st. name (h st)) ` set ?arr" "k \<noteq> DEFAULT_STORAGE_NAME"
      "k \<notin> set Object_prototype_names"
    from k(1) have "?own k = ((\<lambda>k. None)(DEFAULT_STORAGE_NAME := ?first)) k"
      by (rule foldl_bind_other)
    with k(2) have o: "?own k = None" by simp
    have "k \<noteq> ''__proto__''"
      using k(3) by (auto simp: Object_prototype_names_def)
    with o k(3) show "storage_map_get h (makeStorageMap h inp) k = NoMember"
      by (simp add: m storage_map_get_def lookup_Object_prototype_def)
  }
qed

theorem storage_map_default_fallback_witness:
  "distinct (map (\<lambda>st. name (heap ex_world st)) (makeArray (Array [0, 2]))) \<and>
   DEFAULT_STORAGE_NAME \<notin> (\<lambda>st. name (heap ex_world st)) ` set (tl (makeArray (Array [0, 2]))) \<and>
   ''__proto__'' \<notin> (\<lambda>st. name (heap ex_world st)) ` set (makeArray (Array [0, 2])) \<and>
   storage_map_get (heap ex_world) (makeStorageMap (heap ex_world) (Array [0, 2]))
     (name (heap ex_world 0)) = StorageObject 0 \<and>
   storage_map_get (heap ex_world) (makeStorageMap (heap ex_world) (Array [0, 2]))
     (name (heap ex_world 2)) = StorageObject 2 \<and>
   storage_map_get (heap ex_world) (makeStorageMap (heap ex_world) (Array [0, 2]))
     DEFAULT_STORAGE_NAME = StorageObject 0 \<and>
   storage_map_get (heap ex_world) (makeStorageMap (heap ex_world) (Array [0, 2])) ''missing''
     = NoMember \<and>
   storage ((flag_def (Bool False))\<lparr>storage := Some ''missing''\<rparr>) = Some ''missing'' \<and>
   \<not> truthy_member (storage_map_get (heap ex_constructed) (storageMap ex_flagg) ''missing'') \<and>
   resolveFlagStorage (Some ((flag_def (Bool False))\<lparr>storage := Some ''missing''\<rparr>))
       (storageMap ex_flagg) ex_constructed =
     (Inr (StorageObject 0), ex_constructed\<lparr>warnings := [storage_not_available ''missing'']\<rparr>) \<and>
   storage (flag_def (Bool False)) = None \<and>
   \<not> truthy_member (storage_map_get (heap ex_constructed) (storageMap ex_flagg) ''undefined'') \<and>
   resolveFlagStorage (Some (flag_def (Bool False))) (storageMap ex_flagg) ex_constructed =
     (Inr (StorageObject 0), ex_constructed)"
proof -
  let ?h = "heap ex_world"
  let ?dy = "(flag_def (Bool False))\<lparr>storage := Some ''missing''\<rparr>"
  let ?da = "flag_def (Bool False)"
  have h1: "distinct (map (\<lambda>st. name (?h st)) (makeArray (Array [0, 2])))"
    by (simp add: ex_simps)
  have h2: "DEFAULT_STORAGE_NAME \<notin> (\<lambda>st. name (?h st)) ` set (tl (makeArray (Array [0, 2])))"
    by (simp add: ex_simps DEFAULT_STORAGE_NAME_def)
  have h3: "''__proto__'' \<notin> (\<lambda>st. name (?h st)) ` set (makeArray (Array [0, 2]))"
    by (simp add: ex_simps)
  have k1: "''missing'' \<notin> (\<lambda>st. name (?h st)) ` set (makeArray (Array [0, 2]))"
    and k2: "''missing'' \<noteq> DEFAULT_STORAGE_NAME"
    and k3: "''missing'' \<notin> set Object_prototype_names"
    by (simp_all add: ex_simps DEFAULT_STORAGE_NAME_def Object_prototype_names_def)
  have y1: "storage ?dy = Some ''missing''"
    by (simp add: flag_def_def)
  have y2: "\<not> truthy_member (storage_map_get (heap ex_constructed) (storageMap ex_flagg) ''missing'')"
    by (simp add: ex_simps core_defs)
  have a1: "storage ?da = None"
    by (simp add: flag_def_def)
  have a2: "\<not> truthy_member (storage_map_get (heap ex_constructed) (storageMap ex_flagg) ''undefined'')"
    by (simp add: ex_simps core_defs)
  have d: "storage_map_get (heap ex_constructed) (storageMap ex_flagg) DEFAULT_STORAGE_NAME
      = StorageObject 0"
    by (simp add: ex_simps core_defs)
  have w: "warnings ex_constructed = []"
    by (simp add: ex_simps)
  note t = storage_map_default_fallback [OF h1 h2 h3]
  have m0: "storage_map_get ?h (makeStorageMap ?h (Array [0, 2])) (name (?h 0)) = StorageObject 0"
    using t [THEN conjunct1] by simp
  have m2: "storage_map_get ?h (makeStorageMap ?h (Array [0, 2])) (name (?h 2)) = StorageObject 2"
    using t [THEN conjunct1] by simp
  have md: "storage_map_get ?h (makeStorageMap ?h (Array [0, 2])) DEFAULT_STORAGE_NAME
      = StorageObject 0"
    using t [THEN conjunct2, THEN conjunct1] by simp
  have mk: "storage_map_get ?h (makeStorageMap ?h (Array [0, 2])) ''missing'' = NoMember"
    using t [THEN conjunct2, THEN conjunct2, THEN conjunct2, THEN conjunct2, of "''missing''"]
      k1 k2 k3
    by blast
  have ry: "resolveFlagStorage (Some ?dy) (storageMap ex_flagg) ex_constructed =
      (Inr (StorageObject 0), ex_constructed\<lparr>warnings := [storage_not_available ''missing'']\<rparr>)"
    using t [THEN conjunct2, THEN conjunct2, THEN conjunct1,
        of ?dy "''missing''" ex_constructed "storageMap ex_flagg"] y1 y2 d w
    by simp
  have ra: "resolveFlagStorage (Some ?da) (storageMap ex_flagg) ex_constructed =
      (Inr (StorageObject 0), ex_constructed)"
    using t [THEN conjunct2, THEN conjunct2, THEN conjunct2, THEN conjunct1,
        of ?da ex_constructed "storageMap ex_flagg"] a1 a2 d
    by simp
  from h1 h2 h3 m0 m2 md mk y1 y2 ry a1 a2 ra show ?thesis by blast
qed

text \<open>
  C7 as stated fails in the warning: the flag \<open>a\<close> has no storage field, resolution
  falls back to the \<open>_default\<close> entry, and nothing is logged, neither by
  \<open>resolveFlagStorage\<close> nor by a \<open>get\<close> or a \<open>set\<close> of the flag. The warning is guarded
  by \<open>storageName !== undefined\<close>.
\<close>

theorem fallback_without_warning_counterexample:
  "definitions ex_flagg ''a'' = Some (flag_def (Bool False)) \<and>
   storage (flag_def (Bool False)) = None \<and>
   warnings ex_constructed = [] \<and>
   resolveFlagStorage (Some (flag_def (Bool False))) (storageMap ex_flagg) ex_constructed =
     (Inr (storage_map_get (heap ex_constructed) (storageMap ex_flagg) DEFAULT_STORAGE_NAME),
      ex_constructed) \<and>
   fst (get ex_flagg ''a'' ex_constructed) = Inr (Bool False) \<and>
   warnings (snd (get ex_flagg ''a'' ex_constructed)) = [] \<and>
   warnings (snd (set' ex_flagg (FlagName ''a'') (Bool True) ex_constructed)) = []"
  by (simp add: ex_simps core_defs js_defs Let_def)

text \<open>The flag \<open>y\<close> names a storage that is not registered: \<open>get\<close> and \<open>set\<close> fall
  back to the default storage, at address 0, and warn.\<close>

lemma ex_fallback_on_get_set:
  "fst (get ex_flagg ''y'' ex_constructed) = Inr (Bool False) \<and>
   warnings (snd (get ex_flagg ''y'' ex_constructed)) = [storage_not_available ''missing''] \<and>
   fst (set' ex_flagg (FlagName ''y'') (Bool True) ex_constructed) = Inr () \<and>
   calls (snd (set' ex_flagg (FlagName ''y'') (Bool True) ex_constructed)) =
     [CallAll 1, CallSet 0 ''y'' (Bool True)]"
  by (simp add: ex_simps core_defs js_defs Let_def)

text \<open>
  The flag \<open>z\<close> names the storage \<open>toString\<close>. No storage bears that name, but indexing
  the map with it yields the function inherited from \<open>Object.prototype\<close>, which is
  truthy: resolution returns it, without fallback and without warning. \<open>get\<close> then
  throws a TypeError, since the function has no \<open>get\<close>; \<open>set\<close> finds no \<open>set\<close> in it and
  warns of a read-only storage named \<open>toString\<close>.
\<close>

lemma ex_inherited_storage_name:
  "definitions ex_flagg ''z'' = Some ((flag_def (Bool False))\<lparr>storage := Some ''toString''\<rparr>) \<and>
   resolveFlagStorage (Some ((flag_def (Bool False))\<lparr>storage := Some ''toString''\<rparr>))
       (storageMap ex_flagg) ex_constructed =
     (Inr (FunctionObject ''toString''), ex_constructed) \<and>
   get ex_flagg ''z'' ex_constructed = (Inl TypeError, ex_constructed) \<and>
   set' ex_flagg (FlagName ''z'') (Bool True) ex_constructed =
     (Inr (), ex_constructed\<lparr>warnings := [read_only_warning ''toString'']\<rparr>)"
  by (simp add: ex_simps core_defs js_defs Let_def)

text \<open>What the hypotheses of the amended C7 keep out: a later storage named
  \<open>_default\<close> takes the \<open>_default\<close> entry from the first, of two storages of one name the
  later one is bound to it, a storage named \<open>__proto__\<close> becomes the prototype of the
  map instead of an own property, a storage named \<open>undefined\<close> is what a definition
  without a storage field resolves to, and without any storage the \<open>_default\<close> entry is
  \<open>undefined\<close>.\<close>

lemma makeStorageMap_default_overwritten:
  "name (h b) = DEFAULT_STORAGE_NAME \<Longrightarrow>
   storage_map_get h (makeStorageMap h (Array [a, b])) DEFAULT_STORAGE_NAME = StorageObject b"
  by (simp add: makeStorageMap_def Let_def assign_storage_def storage_map_get_def
      DEFAULT_STORAGE_NAME_def)

lemma makeStorageMap_duplicate_name:
  "name (h a) = name (h b) \<Longrightarrow>
   storage_map_get h (makeStorageMap h (Array [a, b])) (name (h a)) = StorageObject b"
  by (cases "name (h b) = ''__proto__''")
    (simp_all add: makeStorageMap_def Let_def assign_storage_def storage_map_get_def
      DEFAULT_STORAGE_NAME_def)

lemma makeStorageMap_proto:
  "name (h a) = ''__proto__'' \<Longrightarrow>
   makeStorageMap h (Single a) =
     \<lparr>own = (\<lambda>k. None)(DEFAULT_STORAGE_NAME \<mapsto> a), proto = Some a\<rparr>"
  by (simp add: makeStorageMap_def Let_def assign_storage_def)

lemma resolveFlagStorage_undefined_key:
  "storage d = None \<Longrightarrow> storage_map_get (heap w) m ''undefined'' = StorageObject r \<Longrightarrow>
   resolveFlagStorage (Some d) m w = (Inr (StorageObject r), w)"
  by (simp add: resolveFlagStorage_def property_key_def js_defs Let_def)

lemma makeStorageMap_empty:
  "storage_map_get h (makeStorageMap h (Array [])) DEFAULT_STORAGE_NAME = NoMember"
  by (simp add: makeStorageMap_def Let_def storage_map_get_def lookup_Object_prototype_def
      Object_prototype_names_def DEFAULT_STORAGE_NAME_def)

section \<open>Hydration\<close>




end

